theory Spec2Isabelle
  imports Complex_Main "HOL-Library.Sublist"
begin

section \<open>JavaScript values used by the client\<close>

text \<open>
  A JavaScript \<open>number\<close>: \<open>Num i\<close> is the integer \<open>i\<close>, \<open>Frac q\<close> a finite number \<open>q\<close> that
  is not an integer; a division by zero gives \<open>Infinity\<close>, \<open>-Infinity\<close> or \<open>NaN\<close>. The
  arithmetic below is exact: rounding of doubles beyond \<open>2^53\<close> and the sign of zero are
  not modelled.
\<close>

datatype jsnum = Num int | Frac rat | PosInf | NegInf | NaN

text \<open>
  A value of type \<open>any\<close>: what a \<open>Record<string, any>\<close> holds and what the \<open>detail\<close>
  member of a JSON error body can be. \<open>JObject\<close> is a plain object, whose members the
  client never reads.
\<close>

datatype jsval =
    JUndefined
  | JNull
  | JBool bool
  | JNum jsnum
  | JStr string
  | JArray "jsval list"
  | JObject

text \<open>
  What the client uses of the platform it runs on, as parameters of the model.
  \<^item> \<open>rt_parse_url\<close> is the URL parser behind \<open>new URL(text)\<close> for a text that starts with a
    scheme: \<open>None\<close> when the parser fails, otherwise the parsed URL, as its text up to the
    query and the entries of its \<open>searchParams\<close>.
  \<^item> \<open>rt_number_text\<close> is \<open>String(n)\<close> for a number that is not printed as the digits of
    an integer: a number that is not an integer, or one beyond \<open>2^53\<close> (where digits are
    rounded, and exponent form starts at \<open>10^21\<close>).
\<close>

record parsed_url =
  pu_href :: string
  pu_query :: "(string \<times> string) list"

record runtime =
  rt_parse_url :: "string \<Rightarrow> parsed_url option"
  rt_number_text :: "jsnum \<Rightarrow> string"

text \<open>The decimal digits of a natural number, most significant first.\<close>

function digits :: "nat \<Rightarrow> string" where
  "digits n =
     (if n < 10 then [''0123456789'' ! n]
      else digits (n div 10) @ [''0123456789'' ! (n mod 10)])"
  by pat_completeness auto
termination
  by (relation "measure (\<lambda>n. n)") auto

declare digits.simps [simp del]

definition int_to_string :: "int \<Rightarrow> string" where
  "int_to_string i = (if i < 0 then ''-'' @ digits (nat (- i)) else digits (nat i))"

text \<open>\<open>String(n)\<close> for a number. An integer up to \<open>2^53\<close> in absolute value is printed
  with all its digits; what any other finite number prints as is the platform's.\<close>

fun number_to_string :: "runtime \<Rightarrow> jsnum \<Rightarrow> string" where
  "number_to_string rt (Num i) =
     (if \<bar>i\<bar> \<le> 9007199254740992 then int_to_string i else rt_number_text rt (Num i))"
| "number_to_string rt (Frac q) = rt_number_text rt (Frac q)"
| "number_to_string rt PosInf = ''Infinity''"
| "number_to_string rt NegInf = ''-Infinity''"
| "number_to_string rt NaN = ''NaN''"

fun join_comma :: "string list \<Rightarrow> string" where
  "join_comma [] = ''''"
| "join_comma [s] = s"
| "join_comma (s # t # ss) = s @ '','' @ join_comma (t # ss)"

text \<open>\<open>String(value)\<close>. An array prints its elements separated by commas, with
  \<open>undefined\<close> and \<open>null\<close> elements printed as the empty string.\<close>

fun String :: "runtime \<Rightarrow> jsval \<Rightarrow> string" where
  "String rt JUndefined = ''undefined''"
| "String rt JNull = ''null''"
| "String rt (JBool b) = (if b then ''true'' else ''false'')"
| "String rt (JNum n) = number_to_string rt n"
| "String rt (JStr s) = s"
| "String rt (JArray vs) =
     join_comma (map (\<lambda>v. if v = JUndefined \<or> v = JNull then '''' else String rt v) vs)"
| "String rt JObject = ''[object Object]''"

text \<open>Truthiness, as \<open>if (v)\<close> and \<open>v || w\<close> test it.\<close>

fun truthy :: "jsval \<Rightarrow> bool" where
  "truthy JUndefined = False"
| "truthy JNull = False"
| "truthy (JBool b) = b"
| "truthy (JNum n) = (n \<noteq> Num 0 \<and> n \<noteq> Frac 0 \<and> n \<noteq> NaN)"
| "truthy (JStr s) = (s \<noteq> '''')"
| "truthy (JArray vs) = True"
| "truthy JObject = True"

text \<open>
  \<open>new URL(text)\<close> with no base. The parser drops tabs and newlines and leading control
  characters and spaces; a text that then does not start with a scheme (a letter, then
  letters, digits, \<open>+\<close>, \<open>-\<close> or \<open>.\<close>, then a colon) is not a URL, as is a relative path such
  as \<open>/api/logs\<close>; for any other text the platform's parser decides.
\<close>

definition is_alpha :: "char \<Rightarrow> bool" where
  "is_alpha c =
     ((65 \<le> (of_char c :: nat) \<and> (of_char c :: nat) \<le> 90)
      \<or> (97 \<le> (of_char c :: nat) \<and> (of_char c :: nat) \<le> 122))"

definition is_scheme_char :: "char \<Rightarrow> bool" where
  "is_scheme_char c =
     (is_alpha c \<or> (48 \<le> (of_char c :: nat) \<and> (of_char c :: nat) \<le> 57)
      \<or> c = CHR ''+'' \<or> c = CHR ''-'' \<or> c = CHR ''.'')"

definition url_input :: "string \<Rightarrow> string" where
  "url_input s =
     dropWhile (\<lambda>c. (of_char c :: nat) \<le> 32)
       (filter (\<lambda>c. (of_char c :: nat) \<noteq> 9 \<and> (of_char c :: nat) \<noteq> 10 \<and> (of_char c :: nat) \<noteq> 13) s)"

fun has_scheme :: "string \<Rightarrow> bool" where
  "has_scheme [] = False"
| "has_scheme (c # cs) =
     (is_alpha c \<and>
      (case dropWhile is_scheme_char cs of [] \<Rightarrow> False | d # ds \<Rightarrow> d = CHR '':''))"

definition new_URL :: "runtime \<Rightarrow> string \<Rightarrow> parsed_url option" where
  "new_URL rt s = (if has_scheme (url_input s) then rt_parse_url rt s else None)"

section \<open>The client's types\<close>

record User =
  u_id :: string
  u_username :: string
  u_api_key :: string

record Project =
  pr_id :: string
  pr_name :: string
  pr_description :: "string option"
  pr_api_key :: string
  pr_owner_id :: string
  pr_created_at :: string

record CreateProjectRequest =
  cp_name :: string
  cp_description :: "string option"
  cp_oauth_token :: string

record StoredCredentials =
  sc_user :: User
  sc_oauth_token :: string
  sc_projects :: "Project list"

record LogFilters =
  f_query :: string
  f_level :: string
  f_service :: string
  f_startDate :: string
  f_endDate :: string

record PaginationState =
  pg_page :: jsnum
  pg_size :: jsnum
  pg_total :: jsnum

section \<open>HTTP as the client sees it\<close>

datatype http_method = GET | POST

text \<open>What \<open>JSON.stringify\<close> is applied to before a POST.\<close>

record logData =
  ld_message :: string
  ld_level :: string
  ld_service :: string
  ld_timestamp :: "string option"
  ld_metadata :: "(string \<times> jsval) list option"

datatype http_body =
    NoBody
  | LogBody logData
  | BatchBody "logData list"
  | ProjectBody CreateProjectRequest

text \<open>A call of \<open>fetch\<close>: the method, the URL up to the query, the query parameters, the
  headers and the body.\<close>

record http_request =
  req_method :: http_method
  req_url :: string
  req_query :: "(string \<times> string) list"
  req_headers :: "(string \<times> string) list"
  req_body :: http_body

text \<open>
  What \<open>await response.json().catch(() => ({}))\<close> followed by \<open>.detail\<close> finds in the body
  of an answer that is not ok: the body is not JSON (\<open>NotJson\<close>: the \<open>catch\<close> gives \<open>{}\<close>,
  which has no \<open>detail\<close>), or it is the JSON value \<open>null\<close> (\<open>JsonNull\<close>: reading \<open>.detail\<close>
  of \<open>null\<close> throws), or it is another JSON value, with its member \<open>detail\<close>
  (\<open>JsonValue d\<close>, where \<open>d\<close> is \<open>JUndefined\<close> when the value has no such member).
\<close>

datatype error_data = NotJson | JsonNull | JsonValue jsval

text \<open>
  A response: \<open>resp_errorData\<close> is what the error path reads of the body; \<open>resp_json\<close> is
  the parsed body as the value of the declared result type, \<open>None\<close> when the body does not
  parse.
\<close>

record 'a http_response =
  resp_status :: nat
  resp_statusText :: string
  resp_errorData :: error_data
  resp_json :: "'a option"

definition ok :: "'a http_response \<Rightarrow> bool" where
  "ok r = (200 \<le> resp_status r \<and> resp_status r \<le> 299)"

text \<open>What a rejected promise carries: the \<open>Error\<close> the client throws itself, with its
  message; a \<open>TypeError\<close> of the platform (a failed \<open>fetch\<close>, an invalid URL, a property
  read of \<open>null\<close>); the \<open>SyntaxError\<close> of a body that does not parse; or a value that is
  not an instance of \<open>Error\<close>, which only a \<open>fetch\<close> that is not the platform's can
  reject with.\<close>

datatype js_error = Error string | TypeError | SyntaxError | NotAnError

datatype 'a fetch_outcome = Rejected js_error | Responded "'a http_response"

text \<open>\<open>`HTTP ${response.status}: ${response.statusText}`\<close>.\<close>

definition status_line :: "'a http_response \<Rightarrow> string" where
  "status_line r = ''HTTP '' @ digits (resp_status r) @ '': '' @ resp_statusText r"

text \<open>
  What is thrown for an answer that is not ok:
  \<open>const errorData = await response.json().catch(() => ({}));
    throw new Error(errorData.detail || `HTTP ${response.status}: ${response.statusText}`)\<close>.
\<close>

definition not_ok_error :: "runtime \<Rightarrow> 'a http_response \<Rightarrow> js_error" where
  "not_ok_error rt r =
     (case resp_errorData r of
        NotJson \<Rightarrow> Error (status_line r)
      | JsonNull \<Rightarrow> TypeError
      | JsonValue d \<Rightarrow> Error (if truthy d then String rt d else status_line r))"

text \<open>What every method of the two services does with the outcome of its \<open>fetch\<close>: a
  rejection is thrown on, an answer that is not ok is thrown as above, and the parsed body
  of an ok answer is the result.\<close>

definition json_or_throw :: "runtime \<Rightarrow> 'a fetch_outcome \<Rightarrow> js_error + 'a" where
  "json_or_throw rt out =
     (case out of
        Rejected e \<Rightarrow> Inl e
      | Responded response \<Rightarrow>
          if \<not> ok response then Inl (not_ok_error rt response)
          else (case resp_json response of None \<Rightarrow> Inl SyntaxError | Some v \<Rightarrow> Inr v))"

section \<open>ApiService\<close>

text \<open>
  \<open>params\<close> is given by its entries, in the order in which \<open>Object.entries\<close> lists
  them; an entry is appended to \<open>url.searchParams\<close> unless its value is \<open>undefined\<close>,
  \<open>null\<close> or \<open>''\<close>.
\<close>

fun searchParams :: "runtime \<Rightarrow> (string \<times> jsval) list \<Rightarrow> (string \<times> string) list" where
  "searchParams rt [] = []"
| "searchParams rt ((key, v) # ps) =
     (if v \<noteq> JUndefined \<and> v \<noteq> JNull \<and> v \<noteq> JStr '''' then (key, String rt v) # searchParams rt ps
      else searchParams rt ps)"

text \<open>The GET for a parsed URL: the parameters are appended to the entries the URL
  has already.\<close>

definition request_url ::
  "runtime \<Rightarrow> parsed_url \<Rightarrow> (string \<times> jsval) list option \<Rightarrow> http_request" where
  "request_url rt url params =
     \<lparr>req_method = GET, req_url = pu_href url,
      req_query = pu_query url @ (case params of None \<Rightarrow> [] | Some ps \<Rightarrow> searchParams rt ps),
      req_headers = [], req_body = NoBody\<rparr>"

text \<open>The \<open>catch\<close> of \<open>request\<close>:
  \<open>if (error instanceof Error) throw error; throw new Error('Network request failed')\<close>.\<close>

definition rethrow :: "js_error + 'a \<Rightarrow> js_error + 'a" where
  "rethrow res =
     (case res of
        Inl NotAnError \<Rightarrow> Inl (Error ''Network request failed'')
      | _ \<Rightarrow> res)"

text \<open>
  \<open>request\<close>: the calls of \<open>fetch\<close>, and the value returned or the error thrown. \<open>net\<close> is
  the network: what \<open>fetch\<close> answers to a request. \<open>new URL\<close> comes first, outside the
  \<open>try\<close>: when it throws, \<open>fetch\<close> is not called.
\<close>

definition request ::
  "runtime \<Rightarrow> string \<Rightarrow> (http_request \<Rightarrow> 'a fetch_outcome) \<Rightarrow> string
   \<Rightarrow> (string \<times> jsval) list option \<Rightarrow> http_request list \<times> (js_error + 'a)" where
  "request rt baseUrl net endpoint params =
     (case new_URL rt (baseUrl @ endpoint) of
        None \<Rightarrow> ([], Inl TypeError)
      | Some url \<Rightarrow>
          let req = request_url rt url params
          in ([req], rethrow (json_or_throw rt (net req))))"

record FetchLogsParams =
  fl_page :: jsnum
  fl_size :: jsnum
  fl_search :: "string option"
  fl_level :: "string option"
  fl_service :: "string option"
  fl_startDate :: "string option"
  fl_endDate :: "string option"
  fl_backend :: "string option"
  fl_project_id :: "string option"

text \<open>
  \<open>if (v && extra) apiParams.key = v\<close> for an optional string \<open>v\<close>: the entry that the
  assignment adds to \<open>apiParams\<close>, if any. The keys assigned in \<open>fetchLogs\<close> are
  distinct, so every assignment adds a new last entry.
\<close>

definition assign_if :: "string option \<Rightarrow> (string \<Rightarrow> bool) \<Rightarrow> string \<Rightarrow> (string \<times> jsval) list" where
  "assign_if v extra key =
     (case v of
        None \<Rightarrow> []
      | Some s \<Rightarrow> if s \<noteq> '''' \<and> extra s then [(key, JStr s)] else [])"

definition apiParams :: "FetchLogsParams \<Rightarrow> (string \<times> jsval) list" where
  "apiParams params =
     [(''page'', JNum (fl_page params)), (''size'', JNum (fl_size params))]
     @ assign_if (fl_search params) (\<lambda>s. True) ''search''
     @ assign_if (fl_level params) (\<lambda>s. s \<noteq> ''ALL'') ''level''
     @ assign_if (fl_service params) (\<lambda>s. s \<noteq> ''ALL'') ''service''
     @ assign_if (fl_startDate params) (\<lambda>s. True) ''from_ts''
     @ assign_if (fl_endDate params) (\<lambda>s. True) ''to_ts''
     @ assign_if (fl_backend params) (\<lambda>s. True) ''backend''
     @ assign_if (fl_project_id params) (\<lambda>s. True) ''project_id''"

text \<open>The client's \<open>LogEntry\<close> and the response types of the service.\<close>

record LogEntry =
  le_id :: string
  le_timestamp :: string
  le_level :: string
  le_service :: string
  le_message :: string
  le_metadata :: "(string \<times> jsval) list"

record LogsResponse =
  lr_logs :: "LogEntry list"
  lr_total :: int
  lr_page :: int
  lr_size :: int
  lr_total_pages :: int

record ServicesResponse =
  services :: "string list"

record IngestResponse =
  ir_status :: string
  ir_message :: string
  ir_timestamp :: string

record BatchResponse =
  br_status :: string
  br_message :: string
  br_queued :: int
  br_failed :: int

definition fetchLogs ::
  "runtime \<Rightarrow> string \<Rightarrow> (http_request \<Rightarrow> LogsResponse fetch_outcome) \<Rightarrow> FetchLogsParams
   \<Rightarrow> http_request list \<times> (js_error + LogsResponse)" where
  "fetchLogs rt baseUrl net params = request rt baseUrl net ''/logs'' (Some (apiParams params))"

text \<open>What an optional assignment of \<open>fetchLogs\<close> contributes to the query string, and
  the request that \<open>fetchLogs\<close> sends once its URL is parsed.\<close>

definition opt_entry :: "string option \<Rightarrow> (string \<Rightarrow> bool) \<Rightarrow> string \<Rightarrow> (string \<times> string) list" where
  "opt_entry v extra key =
     (case v of None \<Rightarrow> [] | Some s \<Rightarrow> if s \<noteq> '''' \<and> extra s then [(key, s)] else [])"

definition logs_request :: "runtime \<Rightarrow> parsed_url \<Rightarrow> FetchLogsParams \<Rightarrow> http_request" where
  "logs_request rt url params = request_url rt url (Some (apiParams params))"

definition getServices ::
  "runtime \<Rightarrow> string \<Rightarrow> (http_request \<Rightarrow> ServicesResponse fetch_outcome) \<Rightarrow> string option
   \<Rightarrow> http_request list \<times> (js_error + ServicesResponse)" where
  "getServices rt baseUrl net backend =
     (let params = assign_if backend (\<lambda>s. s \<noteq> ''s3'') ''backend'' in
      if backend = Some ''s3'' then ([], Inr \<lparr>services = []\<rparr>)
      else request rt baseUrl net ''/logs/services'' (Some params))"

text \<open>The POST that \<open>ingestLog\<close> and \<open>ingestLogsBatch\<close> send, and what they do with the
  answer.\<close>

definition post_json :: "string \<Rightarrow> http_body \<Rightarrow> http_request" where
  "post_json url body =
     \<lparr>req_method = POST, req_url = url, req_query = [],
      req_headers = [(''Content-Type'', ''application/json'')], req_body = body\<rparr>"

definition ingestLog ::
  "runtime \<Rightarrow> string \<Rightarrow> (http_request \<Rightarrow> IngestResponse fetch_outcome) \<Rightarrow> logData
   \<Rightarrow> http_request list \<times> (js_error + IngestResponse)" where
  "ingestLog rt baseUrl net logData =
     (let req = post_json (baseUrl @ ''/ingest'') (LogBody logData)
      in ([req], json_or_throw rt (net req)))"

definition ingestLogsBatch ::
  "runtime \<Rightarrow> string \<Rightarrow> (http_request \<Rightarrow> BatchResponse fetch_outcome) \<Rightarrow> logData list
   \<Rightarrow> http_request list \<times> (js_error + BatchResponse)" where
  "ingestLogsBatch rt baseUrl net logs =
     (let req = post_json (baseUrl @ ''/ingest/batch'') (BatchBody logs)
      in ([req], json_or_throw rt (net req)))"

section \<open>LogsPage: filters and pagination\<close>

text \<open>The arithmetic of numbers that the page uses. A comparison with \<open>NaN\<close> is false;
  \<open>Math.max\<close> and \<open>Math.min\<close> of a \<open>NaN\<close> are \<open>NaN\<close>.\<close>

definition number_of :: "rat \<Rightarrow> jsnum" where
  "number_of q = (if of_int \<lfloor>q\<rfloor> = q then Num \<lfloor>q\<rfloor> else Frac q)"

fun js_less :: "jsnum \<Rightarrow> jsnum \<Rightarrow> bool" where
  "js_less NaN b = False"
| "js_less a NaN = False"
| "js_less (Num a) (Num b) = (a < b)"
| "js_less (Num a) (Frac q) = (of_int a < q)"
| "js_less (Frac p) (Num b) = (p < of_int b)"
| "js_less (Frac p) (Frac q) = (p < q)"
| "js_less a PosInf = (a \<noteq> PosInf)"
| "js_less NegInf b = (b \<noteq> NegInf)"
| "js_less a b = False"

definition js_ge :: "jsnum \<Rightarrow> jsnum \<Rightarrow> bool" where
  "js_ge a b = (a \<noteq> NaN \<and> b \<noteq> NaN \<and> \<not> js_less a b)"

definition js_strict_eq :: "jsnum \<Rightarrow> jsnum \<Rightarrow> bool" where
  "js_strict_eq a b = (a \<noteq> NaN \<and> a = b)"

definition math_max :: "jsnum \<Rightarrow> jsnum \<Rightarrow> jsnum" where
  "math_max a b = (if a = NaN \<or> b = NaN then NaN else if js_less a b then b else a)"

definition math_min :: "jsnum \<Rightarrow> jsnum \<Rightarrow> jsnum" where
  "math_min a b = (if a = NaN \<or> b = NaN then NaN else if js_less a b then a else b)"

fun js_add :: "jsnum \<Rightarrow> jsnum \<Rightarrow> jsnum" where
  "js_add NaN b = NaN"
| "js_add a NaN = NaN"
| "js_add (Num a) (Num b) = Num (a + b)"
| "js_add (Num a) (Frac q) = number_of (of_int a + q)"
| "js_add (Frac p) (Num b) = number_of (p + of_int b)"
| "js_add (Frac p) (Frac q) = number_of (p + q)"
| "js_add PosInf NegInf = NaN"
| "js_add NegInf PosInf = NaN"
| "js_add (Num a) b = b"
| "js_add (Frac p) b = b"
| "js_add a b = a"

fun js_neg :: "jsnum \<Rightarrow> jsnum" where
  "js_neg (Num a) = Num (- a)"
| "js_neg (Frac q) = Frac (- q)"
| "js_neg PosInf = NegInf"
| "js_neg NegInf = PosInf"
| "js_neg NaN = NaN"

definition js_sub :: "jsnum \<Rightarrow> jsnum \<Rightarrow> jsnum" where
  "js_sub a b = js_add a (js_neg b)"

text \<open>\<open>Math.ceil(a / b)\<close>. The quotient itself, which need not be an integer, is never
  stored by the page.\<close>

definition ceil_quotient :: "rat \<Rightarrow> rat \<Rightarrow> jsnum" where
  "ceil_quotient a b =
     (if b \<noteq> 0 then Num \<lceil>a / b\<rceil>
      else if 0 < a then PosInf else if a < 0 then NegInf else NaN)"

fun math_ceil_div :: "jsnum \<Rightarrow> jsnum \<Rightarrow> jsnum" where
  "math_ceil_div NaN b = NaN"
| "math_ceil_div a NaN = NaN"
| "math_ceil_div (Num a) (Num b) =
     (if b \<noteq> 0 then Num \<lceil>real_of_int a / real_of_int b\<rceil>
      else if 0 < a then PosInf else if a < 0 then NegInf else NaN)"
| "math_ceil_div (Num a) (Frac q) = ceil_quotient (of_int a) q"
| "math_ceil_div (Frac p) (Num b) = ceil_quotient p (of_int b)"
| "math_ceil_div (Frac p) (Frac q) = ceil_quotient p q"
| "math_ceil_div (Num a) b = Num 0"
| "math_ceil_div (Frac p) b = Num 0"
| "math_ceil_div PosInf (Num b) = (if b < 0 then NegInf else PosInf)"
| "math_ceil_div NegInf (Num b) = (if b < 0 then PosInf else NegInf)"
| "math_ceil_div PosInf (Frac q) = (if q < 0 then NegInf else PosInf)"
| "math_ceil_div NegInf (Frac q) = (if q < 0 then PosInf else NegInf)"
| "math_ceil_div a b = NaN"

text \<open>The state of the component that filtering and paging read and write.\<close>

record LogsPage =
  filters :: LogFilters
  pagination :: PaginationState
  storageBackend :: string

definition initial :: LogsPage where
  "initial =
     \<lparr>filters = \<lparr>f_query = '''', f_level = ''ALL'', f_service = ''ALL'',
                   f_startDate = '''', f_endDate = ''''\<rparr>,
      pagination = \<lparr>pg_page = Num 1, pg_size = Num 50, pg_total = Num 0\<rparr>,
      storageBackend = ''elasticsearch''\<rparr>"

definition handleFilterChange :: "LogFilters \<Rightarrow> LogsPage \<Rightarrow> LogsPage" where
  "handleFilterChange newFilters s =
     s\<lparr>filters := newFilters, pagination := (pagination s)\<lparr>pg_page := Num 1\<rparr>\<rparr>"

definition handleQueryChange :: "string \<Rightarrow> LogsPage \<Rightarrow> LogsPage" where
  "handleQueryChange query s =
     s\<lparr>filters := (filters s)\<lparr>f_query := query\<rparr>,
       pagination := (pagination s)\<lparr>pg_page := Num 1\<rparr>\<rparr>"

definition handlePageChange :: "jsnum \<Rightarrow> LogsPage \<Rightarrow> LogsPage" where
  "handlePageChange newPage s = s\<lparr>pagination := (pagination s)\<lparr>pg_page := newPage\<rparr>\<rparr>"

definition totalPages :: "LogsPage \<Rightarrow> jsnum" where
  "totalPages s = math_ceil_div (pg_total (pagination s)) (pg_size (pagination s))"

text \<open>A click on Previous or Next: a disabled button does not call its handler.\<close>

definition previousClick :: "LogsPage \<Rightarrow> LogsPage" where
  "previousClick s =
     (if js_strict_eq (pg_page (pagination s)) (Num 1) then s
      else handlePageChange (math_max (Num 1) (js_sub (pg_page (pagination s)) (Num 1))) s)"

definition nextClick :: "LogsPage \<Rightarrow> LogsPage" where
  "nextClick s =
     (if js_ge (pg_page (pagination s)) (totalPages s) then s
      else handlePageChange (math_min (totalPages s) (js_add (pg_page (pagination s)) (Num 1))) s)"

text \<open>\<open>loadData\<close>: the parameters it passes to \<open>fetchLogs\<close>, and what it does with the
  \<open>total\<close> of the answer, \<open>setPagination(prev => ({ ...prev, total }))\<close>.\<close>

definition loadData_params :: "LogsPage \<Rightarrow> Project option \<Rightarrow> FetchLogsParams" where
  "loadData_params s currentProject =
     \<lparr>fl_page = pg_page (pagination s), fl_size = pg_size (pagination s),
      fl_search = Some (f_query (filters s)), fl_level = Some (f_level (filters s)),
      fl_service = Some (f_service (filters s)),
      fl_startDate = Some (f_startDate (filters s)), fl_endDate = Some (f_endDate (filters s)),
      fl_backend = Some (storageBackend s), fl_project_id = map_option pr_id currentProject\<rparr>"

definition loaded :: "int \<Rightarrow> LogsPage \<Rightarrow> LogsPage" where
  "loaded total' s = s\<lparr>pagination := (pagination s)\<lparr>pg_total := Num total'\<rparr>\<rparr>"

definition setStorageBackend :: "string \<Rightarrow> LogsPage \<Rightarrow> LogsPage" where
  "setStorageBackend b s = s\<lparr>storageBackend := b\<rparr>"

text \<open>What can happen to the page, one event at a time: the user edits the filters or the
  search box, clicks Previous or Next, picks a backend, or a \<open>loadData\<close> call completes
  with the \<open>total\<close> of a \<open>LogsResponse\<close>.\<close>

datatype event =
    FilterChange LogFilters
  | QueryChange string
  | PreviousClick
  | NextClick
  | BackendChange string
  | Loaded int

fun step :: "LogsPage \<Rightarrow> event \<Rightarrow> LogsPage" where
  "step s (FilterChange newFilters) = handleFilterChange newFilters s"
| "step s (QueryChange query) = handleQueryChange query s"
| "step s PreviousClick = previousClick s"
| "step s NextClick = nextClick s"
| "step s (BackendChange b) = setStorageBackend b s"
| "step s (Loaded total') = loaded total' s"

definition run :: "event list \<Rightarrow> LogsPage" where
  "run evs = foldl step initial evs"

text \<open>What holds of the pagination in every state the page reaches: the page number is an
  integer of at least 1, the page size is 50 and the total is an integer.\<close>

definition page_ok :: "LogsPage \<Rightarrow> bool" where
  "page_ok s =
     (\<exists>n t. pagination s = \<lparr>pg_page = Num n, pg_size = Num 50, pg_total = Num t\<rparr> \<and> 1 \<le> n)"

section \<open>AuthService\<close>

record AuthService =
  baseUrl :: string
  credentials :: "StoredCredentials option"
  localStorage :: "string \<rightharpoonup> StoredCredentials"

text \<open>An item of \<open>localStorage\<close> is modelled by the credentials that its JSON text
  encodes.\<close>

definition STORAGE_KEY :: string where
  "STORAGE_KEY = ''logstream_credentials''"

definition saveCredentials :: "StoredCredentials \<Rightarrow> AuthService \<Rightarrow> AuthService" where
  "saveCredentials c s =
     s\<lparr>credentials := Some c, localStorage := (localStorage s)(STORAGE_KEY \<mapsto> c)\<rparr>"

definition clearCredentials :: "AuthService \<Rightarrow> AuthService" where
  "clearCredentials s =
     s\<lparr>credentials := None, localStorage := (localStorage s)(STORAGE_KEY := None)\<rparr>"

definition getCredentials :: "AuthService \<Rightarrow> StoredCredentials option" where
  "getCredentials s = credentials s"

definition getOAuthToken :: "AuthService \<Rightarrow> string option" where
  "getOAuthToken s =
     (case credentials s of
        None \<Rightarrow> None
      | Some c \<Rightarrow> if sc_oauth_token c = '''' then None else Some (sc_oauth_token c))"

definition registerUser ::
  "runtime \<Rightarrow> (http_request \<Rightarrow> User fetch_outcome) \<Rightarrow> AuthService
   \<Rightarrow> AuthService \<times> http_request list \<times> (js_error + User)" where
  "registerUser rt net s =
     (let req = post_json (baseUrl s @ ''/join'') NoBody in
      case json_or_throw rt (net req) of
        Inl e \<Rightarrow> (s, [req], Inl e)
      | Inr userData \<Rightarrow>
          let user = \<lparr>u_id = u_id userData, u_username = u_username userData,
                      u_api_key = u_api_key userData\<rparr>
          in (saveCredentials
                \<lparr>sc_user = user, sc_oauth_token = u_api_key userData, sc_projects = []\<rparr> s,
              [req], Inr user))"

definition createProject ::
  "runtime \<Rightarrow> (http_request \<Rightarrow> Project fetch_outcome) \<Rightarrow> CreateProjectRequest \<Rightarrow> AuthService
   \<Rightarrow> AuthService \<times> http_request list \<times> (js_error + Project)" where
  "createProject rt net projectData s =
     (let req = post_json (baseUrl s @ ''/projects'') (ProjectBody projectData) in
      case json_or_throw rt (net req) of
        Inl e \<Rightarrow> (s, [req], Inl e)
      | Inr projectDataResponse \<Rightarrow>
          let project =
                \<lparr>pr_id = pr_id projectDataResponse, pr_name = pr_name projectDataResponse,
                 pr_description = pr_description projectDataResponse,
                 pr_api_key = pr_api_key projectDataResponse,
                 pr_owner_id = pr_owner_id projectDataResponse,
                 pr_created_at = pr_created_at projectDataResponse\<rparr>
          in (case credentials s of
                None \<Rightarrow> (s, [req], Inr project)
              | Some c \<Rightarrow>
                  (saveCredentials (c\<lparr>sc_projects := sc_projects c @ [project]\<rparr>) s,
                   [req], Inr project)))"

text \<open>A GET whose URL the service writes out itself, with one \<open>oauth_token\<close> parameter
  (\<open>encodeURIComponent\<close> is the encoding of the value in the URL text).\<close>

definition get_with_token :: "string \<Rightarrow> string \<Rightarrow> http_request" where
  "get_with_token url token =
     \<lparr>req_method = GET, req_url = url, req_query = [(''oauth_token'', token)],
      req_headers = [], req_body = NoBody\<rparr>"

definition getProjects ::
  "runtime \<Rightarrow> (http_request \<Rightarrow> Project list fetch_outcome) \<Rightarrow> string \<Rightarrow> AuthService
   \<Rightarrow> AuthService \<times> http_request list \<times> (js_error + Project list)" where
  "getProjects rt net oauthToken s =
     (let req = get_with_token (baseUrl s @ ''/projects'') oauthToken in
      case json_or_throw rt (net req) of
        Inl e \<Rightarrow> (s, [req], Inl e)
      | Inr projects \<Rightarrow>
          (case credentials s of
             None \<Rightarrow> (s, [req], Inr projects)
           | Some c \<Rightarrow> (saveCredentials (c\<lparr>sc_projects := projects\<rparr>) s, [req], Inr projects)))"

definition getProjectApiKey ::
  "runtime \<Rightarrow> (http_request \<Rightarrow> string fetch_outcome) \<Rightarrow> string \<Rightarrow> AuthService
   \<Rightarrow> AuthService \<times> http_request list \<times> (js_error + string)" where
  "getProjectApiKey rt net projectId s =
     (case getOAuthToken s of
        None \<Rightarrow> (s, [], Inl (Error ''Not authenticated''))
      | Some token \<Rightarrow>
          let req = get_with_token (baseUrl s @ ''/projects/'' @ projectId @ ''/api-key'') token
          in (s, [req], json_or_throw rt (net req)))"

section \<open>ProjectsPage: the API key dialog\<close>

record ProjectsPage =
  selectedProject :: "Project option"
  showApiModal :: bool
  projectApiKey :: string
  loadingApiKey :: bool
  error :: "string option"

text \<open>\<open>err instanceof Error ? err.message : 'Failed to fetch API key'\<close>; the messages of
  the \<open>TypeError\<close> and \<open>SyntaxError\<close> of the runtime are not modelled.\<close>

fun err_message :: "js_error \<Rightarrow> string" where
  "err_message (Error m) = m"
| "err_message TypeError = ''TypeError''"
| "err_message SyntaxError = ''SyntaxError''"
| "err_message NotAnError = ''Failed to fetch API key''"

definition handleViewApiKeys ::
  "runtime \<Rightarrow> (http_request \<Rightarrow> string fetch_outcome) \<Rightarrow> Project \<Rightarrow> AuthService \<Rightarrow> ProjectsPage
   \<Rightarrow> ProjectsPage \<times> http_request list" where
  "handleViewApiKeys rt net project auth page =
     (let page1 = page\<lparr>selectedProject := Some project, showApiModal := True,
                        loadingApiKey := True, projectApiKey := ''''\<rparr>
      in case getProjectApiKey rt net (pr_id project) auth of
           (_, reqs, Inr apiKey) \<Rightarrow> (page1\<lparr>projectApiKey := apiKey, loadingApiKey := False\<rparr>, reqs)
         | (_, reqs, Inl err) \<Rightarrow>
             (page1\<lparr>error := Some (err_message err), loadingApiKey := False\<rparr>, reqs))"

section \<open>The pipeline behind the API\<close>

text \<open>
  The client above is the part of the repository at hand. The ingestion gateway, the
  registry, the storage adapters and the query service that answer it are described by
  the specification only; the definitions of this section follow its words.
\<close>

datatype level = INFO | WARNING | ERROR | CRITICAL | DEBUG

datatype api_error = Unauthorized | InvalidArgument | ServiceUnavailable

text \<open>Modelled from the spec: the persisted LogEntry of section 3 (the backend's models
  are missing): identifier, timestamp, level, service name, message, metadata and the
  project identifier set at ingestion. A timestamp is an instant, as an integer.\<close>

record StoredEntry =
  e_identifier :: nat
  e_timestamp :: int
  e_level :: level
  e_service :: string
  e_message :: string
  e_metadata :: "(string \<times> string) list"
  e_project :: string

text \<open>Modelled from the spec: the filter of the adapter's \<open>query\<close> in section 4.5 (the
  backend's filter type is missing): free-text search, level (exact or ALL), service
  (exact or ALL), start and end timestamp (inclusive range), page number and page size.\<close>

datatype 'a selector = All_values | Exactly 'a

record QueryFilter =
  q_search :: "string option"
  q_level :: "level selector"
  q_service :: "string selector"
  q_start :: "int option"
  q_end :: "int option"
  q_page :: int
  q_size :: int

fun contains :: "string \<Rightarrow> string \<Rightarrow> bool" where
  "contains s [] = (s = [])"
| "contains s (c # cs) = (take (length s) (c # cs) = s \<or> contains s cs)"

fun selects :: "'a selector \<Rightarrow> 'a \<Rightarrow> bool" where
  "selects All_values x = True"
| "selects (Exactly y) x = (x = y)"

text \<open>Modelled from the spec: which entries a filter of section 4.5 selects (the storage
  adapters are missing): the search text is a substring of the message or of a metadata
  value, level and service are exact or ALL, the timestamp lies in the inclusive range.\<close>

definition matches :: "QueryFilter \<Rightarrow> StoredEntry \<Rightarrow> bool" where
  "matches f e =
     ((case q_search f of
         None \<Rightarrow> True
       | Some s \<Rightarrow> contains s (e_message e) \<or> list_ex (\<lambda>(k, v). contains s v) (e_metadata e))
      \<and> selects (q_level f) (e_level e)
      \<and> selects (q_service f) (e_service e)
      \<and> (case q_start f of None \<Rightarrow> True | Some t \<Rightarrow> t \<le> e_timestamp e)
      \<and> (case q_end f of None \<Rightarrow> True | Some t \<Rightarrow> e_timestamp e \<le> t))"

text \<open>Modelled from the spec: the result order of section 4.5 (the storage adapters are
  missing): descending by timestamp, ties broken by the assigned identifier.\<close>

definition comes_before :: "StoredEntry \<Rightarrow> StoredEntry \<Rightarrow> bool" where
  "comes_before a b =
     (e_timestamp b < e_timestamp a
      \<or> (e_timestamp a = e_timestamp b \<and> e_identifier a \<le> e_identifier b))"

fun insert_entry :: "StoredEntry \<Rightarrow> StoredEntry list \<Rightarrow> StoredEntry list" where
  "insert_entry e [] = [e]"
| "insert_entry e (x # xs) = (if comes_before e x then e # x # xs else x # insert_entry e xs)"

definition sort_entries :: "StoredEntry list \<Rightarrow> StoredEntry list" where
  "sort_entries es = foldr insert_entry es []"

text \<open>Modelled from the spec: \<open>query(ProjectID, filter) \<rightarrow> (page of entries, total count)\<close>
  of section 4.5 (the storage adapters are missing), over a store whose index spans all
  projects. Pages are numbered from 1; the page is cut out of the ordered hits.\<close>

definition hits :: "StoredEntry list \<Rightarrow> string \<Rightarrow> QueryFilter \<Rightarrow> StoredEntry list" where
  "hits store projectID f = sort_entries (filter (\<lambda>e. e_project e = projectID \<and> matches f e) store)"

definition query :: "StoredEntry list \<Rightarrow> string \<Rightarrow> QueryFilter \<Rightarrow> StoredEntry list \<times> int" where
  "query store projectID f =
     (take (nat (q_size f)) (drop (nat ((q_page f - 1) * q_size f)) (hits store projectID f)),
      int (length (hits store projectID f)))"

text \<open>Modelled from the spec: the Query Service of section 4.6 (the backend's query
  endpoint is missing): it normalizes the adapter's answer into
  \<open>{entries, total, page, size, totalPages}\<close> with \<open>totalPages = ceil(total / size)\<close>, and
  rejects \<open>size \<le> 0\<close> as \<open>InvalidArgument\<close>.\<close>

record QueryPage =
  qp_entries :: "StoredEntry list"
  qp_total :: int
  qp_page :: int
  qp_size :: int
  qp_totalPages :: int

definition query_service ::
  "StoredEntry list \<Rightarrow> string \<Rightarrow> QueryFilter \<Rightarrow> api_error + QueryPage" where
  "query_service store projectID f =
     (if q_size f \<le> 0 then Inl InvalidArgument
      else case query store projectID f of
             (entries, total') \<Rightarrow>
               Inr \<lparr>qp_entries = entries, qp_total = total', qp_page = q_page f,
                    qp_size = q_size f,
                    qp_totalPages = \<lceil>real_of_int total' / real_of_int (q_size f)\<rceil>\<rparr>)"

text \<open>Modelled from the spec: the registry of section 4.1 (the backend's registry is
  missing): for each project the digest of its key and whether the key was revoked;
  \<open>authenticateIngestion(apiKey) \<rightarrow> ProjectID | AuthError\<close> compares the digest of the
  presented key with the stored ones. The digest function is a parameter.\<close>

datatype auth_error = Invalid | Revoked

record KeyRecord =
  k_digest :: string
  k_project :: string
  k_revoked :: bool

definition authenticateIngestion ::
  "(string \<Rightarrow> string) \<Rightarrow> KeyRecord list \<Rightarrow> string \<Rightarrow> auth_error + string" where
  "authenticateIngestion digest registry apiKey =
     (case find (\<lambda>k. k_digest k = digest apiKey) registry of
        None \<Rightarrow> Inl Invalid
      | Some k \<Rightarrow> if k_revoked k then Inl Revoked else Inr (k_project k))"

text \<open>Modelled from the spec: a submitted log object of section 6,
  \<open>{message, level?, service, timestamp?, metadata?}\<close>, and its validation in section 4.2
  (the backend's ingestion endpoint is missing): \<open>message\<close> non-empty, \<open>level\<close> in the
  enumerated set and INFO if omitted, \<open>service\<close> non-empty, \<open>timestamp\<close> parsed as
  ISO-8601 or defaulted to the server clock. The ISO-8601 parser and the clock are
  parameters.\<close>

record RawEntry =
  raw_message :: string
  raw_level :: "string option"
  raw_service :: string
  raw_timestamp :: "string option"
  raw_metadata :: "(string \<times> string) list"

definition parse_level :: "string \<Rightarrow> level option" where
  "parse_level s =
     (if s = ''INFO'' then Some INFO
      else if s = ''WARNING'' then Some WARNING
      else if s = ''ERROR'' then Some ERROR
      else if s = ''CRITICAL'' then Some CRITICAL
      else if s = ''DEBUG'' then Some DEBUG
      else None)"

definition validate ::
  "(string \<Rightarrow> int option) \<Rightarrow> int \<Rightarrow> RawEntry \<Rightarrow> (int \<times> level) option" where
  "validate parse_iso now raw =
     (if raw_message raw = '''' \<or> raw_service raw = '''' then None
      else case (case raw_level raw of None \<Rightarrow> Some INFO | Some l \<Rightarrow> parse_level l) of
             None \<Rightarrow> None
           | Some lv \<Rightarrow>
               (case raw_timestamp raw of
                  None \<Rightarrow> Some (now, lv)
                | Some t \<Rightarrow> (case parse_iso t of None \<Rightarrow> None | Some ts \<Rightarrow> Some (ts, lv))))"

text \<open>Modelled from the spec: \<open>ingestBatch(rawEntries, credential)\<close> of section 4.2 (the
  backend's ingestion endpoint is missing). The gateway holds the registry, the
  delivery queue, whether the queue can be reached, and the next identifier to assign.
  Entries are validated one by one; each accepted entry is tagged with the project of
  the credential and an identifier and published, in the order of the batch. The texts
  of \<open>status\<close> and \<open>message\<close> are left open by the spec and are a parameter.\<close>

record Gateway =
  g_registry :: "KeyRecord list"
  g_queue :: "StoredEntry list"
  g_queue_up :: bool
  g_next_id :: nat

record BatchResult =
  b_status :: string
  b_message :: string
  b_queued :: nat
  b_failed :: nat

fun accept ::
  "(string \<Rightarrow> int option) \<Rightarrow> int \<Rightarrow> string \<Rightarrow> nat \<Rightarrow> RawEntry list \<Rightarrow> StoredEntry list" where
  "accept parse_iso now projectID next_id [] = []"
| "accept parse_iso now projectID next_id (raw # raws) =
     (case validate parse_iso now raw of
        None \<Rightarrow> accept parse_iso now projectID next_id raws
      | Some (ts, lv) \<Rightarrow>
          \<lparr>e_identifier = next_id, e_timestamp = ts, e_level = lv,
           e_service = raw_service raw, e_message = raw_message raw,
           e_metadata = raw_metadata raw, e_project = projectID\<rparr>
          # accept parse_iso now projectID (Suc next_id) raws)"

definition ingestBatch ::
  "(string \<Rightarrow> string) \<Rightarrow> (string \<Rightarrow> int option) \<Rightarrow> int \<Rightarrow> (nat \<Rightarrow> nat \<Rightarrow> string \<times> string)
   \<Rightarrow> RawEntry list \<Rightarrow> string \<Rightarrow> Gateway \<Rightarrow> Gateway \<times> (api_error + BatchResult)" where
  "ingestBatch digest parse_iso now wording rawEntries credential g =
     (case authenticateIngestion digest (g_registry g) credential of
        Inl err \<Rightarrow> (g, Inl Unauthorized)
      | Inr projectID \<Rightarrow>
          let accepted = accept parse_iso now projectID (g_next_id g) rawEntries;
              queued = length accepted;
              failed = length rawEntries - queued
          in if accepted \<noteq> [] \<and> \<not> g_queue_up g then (g, Inl ServiceUnavailable)
             else (g\<lparr>g_queue := g_queue g @ accepted, g_next_id := g_next_id g + queued\<rparr>,
                   Inr \<lparr>b_status = fst (wording queued failed),
                        b_message = snd (wording queued failed),
                        b_queued = queued, b_failed = failed\<rparr>))"

section \<open>Properties of the client\<close>

subsection \<open>URLs\<close>

lemma new_URL_http:
  "new_URL rt (CHR ''h'' # CHR ''t'' # CHR ''t'' # CHR ''p'' # CHR '':'' # s)
     = rt_parse_url rt (CHR ''h'' # CHR ''t'' # CHR ''t'' # CHR ''p'' # CHR '':'' # s)"
  by (simp add: new_URL_def url_input_def is_alpha_def is_scheme_char_def)

lemma new_URL_relative: "new_URL rt (CHR ''/'' # s) = None"
  by (simp add: new_URL_def url_input_def is_alpha_def)

lemma new_URL_empty: "new_URL rt [] = None"
  by (simp add: new_URL_def url_input_def)

subsection \<open>The request builder\<close>

lemma searchParams_append:
  "searchParams rt (xs @ ys) = searchParams rt xs @ searchParams rt ys"
  by (induction rt xs rule: searchParams.induct) auto

lemma searchParams_filter:
  "searchParams rt ps =
     map (\<lambda>(k, v). (k, String rt v))
       (filter (\<lambda>(k, v). v \<noteq> JUndefined \<and> v \<noteq> JNull \<and> v \<noteq> JStr '''') ps)"
  by (induction rt ps rule: searchParams.induct) auto

lemma searchParams_assign_if: "searchParams rt (assign_if v extra key) = opt_entry v extra key"
  by (simp add: assign_if_def opt_entry_def split: option.splits)

lemma assign_if_empty: "assign_if (Some '''') extra key = assign_if None extra key"
  by (simp add: assign_if_def)

lemma request_parsed:
  "new_URL rt (base @ endpoint) = Some url \<Longrightarrow>
   request rt base net endpoint params
     = ([request_url rt url params], rethrow (json_or_throw rt (net (request_url rt url params))))"
  by (simp add: request_def Let_def)

lemma request_not_parsed:
  "new_URL rt (base @ endpoint) = None \<Longrightarrow> request rt base net endpoint params = ([], Inl TypeError)"
  by (simp add: request_def)

lemma json_or_throw_ok:
  "ok r \<Longrightarrow>
   json_or_throw rt (Responded r) = (case resp_json r of None \<Rightarrow> Inl SyntaxError | Some v \<Rightarrow> Inr v)"
  by (simp add: json_or_throw_def)

lemma json_or_throw_not_ok:
  "\<not> ok r \<Longrightarrow> json_or_throw rt (Responded r) = Inl (not_ok_error rt r)"
  by (simp add: json_or_throw_def)

lemma json_or_throw_rejected: "json_or_throw rt (Rejected e) = Inl e"
  by (simp add: json_or_throw_def)

lemma rethrow_Inr: "rethrow (Inr v) = Inr v"
  by (simp add: rethrow_def)

lemma query_explicit:
  "searchParams rt (apiParams p) =
     [(''page'', number_to_string rt (fl_page p)), (''size'', number_to_string rt (fl_size p))]
     @ opt_entry (fl_search p) (\<lambda>s. True) ''search''
     @ opt_entry (fl_level p) (\<lambda>s. s \<noteq> ''ALL'') ''level''
     @ opt_entry (fl_service p) (\<lambda>s. s \<noteq> ''ALL'') ''service''
     @ opt_entry (fl_startDate p) (\<lambda>s. True) ''from_ts''
     @ opt_entry (fl_endDate p) (\<lambda>s. True) ''to_ts''
     @ opt_entry (fl_backend p) (\<lambda>s. True) ''backend''
     @ opt_entry (fl_project_id p) (\<lambda>s. True) ''project_id''"
  by (simp add: apiParams_def searchParams_append searchParams_assign_if)

lemma subseq_opt_entry: "subseq (map fst (opt_entry v extra key)) [key]"
  by (simp add: opt_entry_def split: option.splits)

lemma keys_subseq:
  "subseq (map fst (searchParams rt (apiParams p)))
     [''page'', ''size'', ''search'', ''level'', ''service'', ''from_ts'', ''to_ts'',
      ''backend'', ''project_id'']"
proof -
  have "subseq (map fst (searchParams rt (apiParams p)))
     ([''page'', ''size''] @ [''search''] @ [''level''] @ [''service''] @ [''from_ts'']
        @ [''to_ts''] @ [''backend''] @ [''project_id''])"
    unfolding query_explicit map_append
    by (intro list_emb_append_mono subseq_opt_entry) simp
  then show ?thesis by simp
qed

lemma map_of_opt_entry:
  "map_of (opt_entry v extra key) k =
     (if k = key
      then (case v of None \<Rightarrow> None | Some s \<Rightarrow> if s \<noteq> [] \<and> extra s then Some s else None)
      else None)"
  by (simp add: opt_entry_def split: option.splits)

lemma map_of_page:
  "map_of (searchParams rt (apiParams p)) ''page'' = Some (number_to_string rt (fl_page p))"
  unfolding query_explicit by (simp add: map_of_opt_entry map_add_def split: option.splits)

lemma map_of_size:
  "map_of (searchParams rt (apiParams p)) ''size'' = Some (number_to_string rt (fl_size p))"
  unfolding query_explicit by (simp add: map_of_opt_entry map_add_def split: option.splits)

lemma map_of_search:
  "map_of (searchParams rt (apiParams p)) ''search'' =
     (if fl_search p = Some [] then None else fl_search p)"
  unfolding query_explicit by (simp add: map_of_opt_entry map_add_def split: option.splits)

lemma map_of_level:
  "map_of (searchParams rt (apiParams p)) ''level'' =
     (if fl_level p = Some [] \<or> fl_level p = Some ''ALL'' then None else fl_level p)"
  unfolding query_explicit by (simp add: map_of_opt_entry map_add_def split: option.splits)

lemma map_of_service:
  "map_of (searchParams rt (apiParams p)) ''service'' =
     (if fl_service p = Some [] \<or> fl_service p = Some ''ALL'' then None else fl_service p)"
  unfolding query_explicit by (simp add: map_of_opt_entry map_add_def split: option.splits)

lemma map_of_from_ts:
  "map_of (searchParams rt (apiParams p)) ''from_ts'' =
     (if fl_startDate p = Some [] then None else fl_startDate p)"
  unfolding query_explicit by (simp add: map_of_opt_entry map_add_def split: option.splits)

lemma map_of_to_ts:
  "map_of (searchParams rt (apiParams p)) ''to_ts'' =
     (if fl_endDate p = Some [] then None else fl_endDate p)"
  unfolding query_explicit by (simp add: map_of_opt_entry map_add_def split: option.splits)

lemma map_of_backend:
  "map_of (searchParams rt (apiParams p)) ''backend'' =
     (if fl_backend p = Some [] then None else fl_backend p)"
  unfolding query_explicit by (simp add: map_of_opt_entry map_add_def split: option.splits)

lemma map_of_project_id:
  "map_of (searchParams rt (apiParams p)) ''project_id'' =
     (if fl_project_id p = Some [] then None else fl_project_id p)"
  unfolding query_explicit by (simp add: map_of_opt_entry map_add_def split: option.splits)

lemma fetchLogs_parsed:
  "new_URL rt (base @ ''/logs'') = Some url \<Longrightarrow>
   fetchLogs rt base net p
     = ([logs_request rt url p], rethrow (json_or_throw rt (net (logs_request rt url p))))"
  by (simp add: fetchLogs_def logs_request_def request_parsed)

lemma fetchLogs_not_parsed:
  "new_URL rt (base @ ''/logs'') = None \<Longrightarrow> fetchLogs rt base net p = ([], Inl TypeError)"
  by (simp add: fetchLogs_def request_not_parsed)

lemma logs_request_fields:
  "req_method (logs_request rt url p) = GET"
  "req_url (logs_request rt url p) = pu_href url"
  "req_headers (logs_request rt url p) = []"
  "req_body (logs_request rt url p) = NoBody"
  "req_query (logs_request rt url p) = pu_query url @ searchParams rt (apiParams p)"
  by (simp_all add: logs_request_def request_url_def)

text \<open>
  Claim C6. For every filter state, \<open>fetchLogs\<close> builds the URL of \<open>/logs\<close> under the base
  URL. When that text is a URL, it calls \<open>fetch\<close> once, with a GET of that URL to which
  it appends parameters whose names are among \<open>page\<close>, \<open>size\<close>, \<open>search\<close>, \<open>level\<close>,
  \<open>service\<close>, \<open>from_ts\<close>, \<open>to_ts\<close>, \<open>backend\<close>, \<open>project_id\<close>, each at most once and in this
  order. \<open>page\<close> and \<open>size\<close> are always there, printed as \<open>String\<close> prints them;
  \<open>startDate\<close> is sent as \<open>from_ts\<close> and \<open>endDate\<close> as \<open>to_ts\<close>; \<open>level\<close> and \<open>service\<close> are
  left out when they are \<open>'ALL'\<close> (or empty, or absent). The body of an ok answer is
  returned as the \<open>LogsResponse\<close> it is, with its five members \<open>logs\<close>, \<open>total\<close>, \<open>page\<close>,
  \<open>size\<close> and \<open>total_pages\<close>. When the text is not a URL, \<open>new URL\<close> throws a \<open>TypeError\<close>
  and \<open>fetch\<close> is not called.
\<close>

theorem fetchLogs_request_parameters:
  "(new_URL rt (base @ ''/logs'') = None \<longrightarrow> fetchLogs rt base net p = ([], Inl TypeError)) \<and>
   (new_URL rt (base @ ''/logs'') = Some url \<longrightarrow>
      fst (fetchLogs rt base net p) = [logs_request rt url p] \<and>
      req_method (logs_request rt url p) = GET \<and>
      req_url (logs_request rt url p) = pu_href url \<and>
      req_query (logs_request rt url p) = pu_query url @ searchParams rt (apiParams p) \<and>
      (net (logs_request rt url p) = Responded r \<and> ok r \<and> resp_json r = Some body
         \<longrightarrow> snd (fetchLogs rt base net p) = Inr body)) \<and>
   subseq (map fst (searchParams rt (apiParams p)))
     [''page'', ''size'', ''search'', ''level'', ''service'', ''from_ts'', ''to_ts'',
      ''backend'', ''project_id''] \<and>
   map_of (searchParams rt (apiParams p)) ''page'' = Some (number_to_string rt (fl_page p)) \<and>
   map_of (searchParams rt (apiParams p)) ''size'' = Some (number_to_string rt (fl_size p)) \<and>
   map_of (searchParams rt (apiParams p)) ''search'' =
     (if fl_search p = Some '''' then None else fl_search p) \<and>
   map_of (searchParams rt (apiParams p)) ''level'' =
     (if fl_level p = Some '''' \<or> fl_level p = Some ''ALL'' then None else fl_level p) \<and>
   map_of (searchParams rt (apiParams p)) ''service'' =
     (if fl_service p = Some '''' \<or> fl_service p = Some ''ALL'' then None else fl_service p) \<and>
   map_of (searchParams rt (apiParams p)) ''from_ts'' =
     (if fl_startDate p = Some '''' then None else fl_startDate p) \<and>
   map_of (searchParams rt (apiParams p)) ''to_ts'' =
     (if fl_endDate p = Some '''' then None else fl_endDate p) \<and>
   map_of (searchParams rt (apiParams p)) ''backend'' =
     (if fl_backend p = Some '''' then None else fl_backend p) \<and>
   map_of (searchParams rt (apiParams p)) ''project_id'' =
     (if fl_project_id p = Some '''' then None else fl_project_id p)"
proof (intro conjI impI)
  assume "new_URL rt (base @ ''/logs'') = None"
  then show "fetchLogs rt base net p = ([], Inl TypeError)" by (rule fetchLogs_not_parsed)
next
  assume u: "new_URL rt (base @ ''/logs'') = Some url"
  show "fst (fetchLogs rt base net p) = [logs_request rt url p]"
    by (simp add: fetchLogs_parsed [OF u])
  assume "net (logs_request rt url p) = Responded r \<and> ok r \<and> resp_json r = Some body"
  then show "snd (fetchLogs rt base net p) = Inr body"
    by (simp add: fetchLogs_parsed [OF u] json_or_throw_ok rethrow_Inr)
qed (simp_all only: logs_request_fields keys_subseq map_of_page map_of_size map_of_search
       map_of_level map_of_service map_of_from_ts map_of_to_ts map_of_backend map_of_project_id)

theorem fetchLogs_request_parameters_witness:
  "fst (fetchLogs
          \<lparr>rt_parse_url = (\<lambda>s. Some \<lparr>pu_href = s, pu_query = []\<rparr>), rt_number_text = (\<lambda>n. '''')\<rparr>
          ''http://localhost:8000''
          (\<lambda>req. Responded \<lparr>resp_status = 200, resp_statusText = ''OK'', resp_errorData = NotJson,
             resp_json = Some \<lparr>lr_logs = [], lr_total = 0, lr_page = 1, lr_size = 50,
                               lr_total_pages = 0\<rparr>\<rparr>)
          (loadData_params initial None))
     = [\<lparr>req_method = GET, req_url = ''http://localhost:8000/logs'',
         req_query = [(''page'', ''1''), (''size'', ''50''), (''backend'', ''elasticsearch'')],
         req_headers = [], req_body = NoBody\<rparr>] \<and>
   snd (fetchLogs
          \<lparr>rt_parse_url = (\<lambda>s. Some \<lparr>pu_href = s, pu_query = []\<rparr>), rt_number_text = (\<lambda>n. '''')\<rparr>
          ''http://localhost:8000''
          (\<lambda>req. Responded \<lparr>resp_status = 200, resp_statusText = ''OK'', resp_errorData = NotJson,
             resp_json = Some \<lparr>lr_logs = [], lr_total = 0, lr_page = 1, lr_size = 50,
                               lr_total_pages = 0\<rparr>\<rparr>)
          (loadData_params initial None))
     = Inr \<lparr>lr_logs = [], lr_total = 0, lr_page = 1, lr_size = 50, lr_total_pages = 0\<rparr> \<and>
   fetchLogs
     \<lparr>rt_parse_url = (\<lambda>s. Some \<lparr>pu_href = s, pu_query = []\<rparr>), rt_number_text = (\<lambda>n. '''')\<rparr>
     ''/api''
     (\<lambda>req. Responded \<lparr>resp_status = 200, resp_statusText = ''OK'', resp_errorData = NotJson,
        resp_json = Some \<lparr>lr_logs = [], lr_total = 0, lr_page = 1, lr_size = 50,
                          lr_total_pages = 0\<rparr>\<rparr>)
     (loadData_params initial None)
     = ([], Inl TypeError)"
  using
    fetchLogs_request_parameters
      [of "\<lparr>rt_parse_url = (\<lambda>s. Some \<lparr>pu_href = s, pu_query = []\<rparr>), rt_number_text = (\<lambda>n. '''')\<rparr>"
        "''http://localhost:8000''"
        "\<lambda>req. Responded \<lparr>resp_status = 200, resp_statusText = ''OK'', resp_errorData = NotJson,
             resp_json = Some \<lparr>lr_logs = [], lr_total = 0, lr_page = 1, lr_size = 50,
                               lr_total_pages = 0\<rparr>\<rparr>"
        "loadData_params initial None"
        "\<lparr>pu_href = ''http://localhost:8000/logs'', pu_query = []\<rparr>"
        "\<lparr>resp_status = 200, resp_statusText = ''OK'', resp_errorData = NotJson,
             resp_json = Some \<lparr>lr_logs = [], lr_total = 0, lr_page = 1, lr_size = 50,
                               lr_total_pages = 0\<rparr>\<rparr>"
        "\<lparr>lr_logs = [], lr_total = 0, lr_page = 1, lr_size = 50, lr_total_pages = 0\<rparr>"]
    fetchLogs_request_parameters
      [of "\<lparr>rt_parse_url = (\<lambda>s. Some \<lparr>pu_href = s, pu_query = []\<rparr>), rt_number_text = (\<lambda>n. '''')\<rparr>"
        "''/api''"
        "\<lambda>req. Responded \<lparr>resp_status = 200, resp_statusText = ''OK'', resp_errorData = NotJson,
             resp_json = Some \<lparr>lr_logs = [], lr_total = 0, lr_page = 1, lr_size = 50,
                               lr_total_pages = 0\<rparr>\<rparr>"
        "loadData_params initial None"
        "\<lparr>pu_href = ''http://localhost:8000/logs'', pu_query = []\<rparr>"
        "\<lparr>resp_status = 200, resp_statusText = ''OK'', resp_errorData = NotJson,
             resp_json = Some \<lparr>lr_logs = [], lr_total = 0, lr_page = 1, lr_size = 50,
                               lr_total_pages = 0\<rparr>\<rparr>"
        "\<lparr>lr_logs = [], lr_total = 0, lr_page = 1, lr_size = 50, lr_total_pages = 0\<rparr>"]
  by (simp add: new_URL_http new_URL_relative ok_def logs_request_def request_url_def apiParams_def
        assign_if_def loadData_params_def initial_def int_to_string_def digits.simps)

lemma fetchLogs_empty_filters:
  "fetchLogs rt base net (p\<lparr>fl_search := Some []\<rparr>) = fetchLogs rt base net (p\<lparr>fl_search := None\<rparr>)"
  "fetchLogs rt base net (p\<lparr>fl_startDate := Some []\<rparr>)
     = fetchLogs rt base net (p\<lparr>fl_startDate := None\<rparr>)"
  "fetchLogs rt base net (p\<lparr>fl_endDate := Some []\<rparr>) = fetchLogs rt base net (p\<lparr>fl_endDate := None\<rparr>)"
  by (simp_all add: fetchLogs_def apiParams_def assign_if_empty)

lemma request_url_query:
  "req_query (request_url rt url (Some ps)) =
     pu_query url @ map (\<lambda>(k, v). (k, String rt v))
       (filter (\<lambda>(k, v). v \<noteq> JUndefined \<and> v \<noteq> JNull \<and> v \<noteq> JStr []) ps)"
  by (simp add: request_url_def searchParams_filter [symmetric] del: searchParams.simps)

text \<open>
  Claim C10. The request builder parses the text of the URL first. When it is a URL, the
  builder calls \<open>fetch\<close> once, with that URL and, appended to the query it has, in the
  order of the parameter map, the entries whose value is not \<open>undefined\<close>, not \<open>null\<close> and
  not the empty string, each printed with \<open>String\<close>, and no other entry. When it is not a
  URL, \<open>new URL\<close> throws a \<open>TypeError\<close> and \<open>fetch\<close> is not called. An empty search text
  and an empty start or end date are not transmitted by \<open>fetchLogs\<close>: the call does what it
  does when the filter is absent.
\<close>

theorem request_appends_present_values:
  "(new_URL rt (base @ endpoint) = None \<longrightarrow>
      request rt base net endpoint (Some ps) = ([], Inl TypeError)) \<and>
   (new_URL rt (base @ endpoint) = Some url \<longrightarrow>
      fst (request rt base net endpoint (Some ps)) = [request_url rt url (Some ps)] \<and>
      req_url (request_url rt url (Some ps)) = pu_href url \<and>
      req_query (request_url rt url (Some ps)) =
        pu_query url @ map (\<lambda>(k, v). (k, String rt v))
          (filter (\<lambda>(k, v). v \<noteq> JUndefined \<and> v \<noteq> JNull \<and> v \<noteq> JStr []) ps)) \<and>
   fetchLogs rt base net' (p\<lparr>fl_search := Some []\<rparr>) = fetchLogs rt base net' (p\<lparr>fl_search := None\<rparr>) \<and>
   fetchLogs rt base net' (p\<lparr>fl_startDate := Some []\<rparr>)
     = fetchLogs rt base net' (p\<lparr>fl_startDate := None\<rparr>) \<and>
   fetchLogs rt base net' (p\<lparr>fl_endDate := Some []\<rparr>)
     = fetchLogs rt base net' (p\<lparr>fl_endDate := None\<rparr>) \<and>
   map_of (searchParams rt (apiParams (p\<lparr>fl_search := Some []\<rparr>))) ''search'' = None \<and>
   map_of (searchParams rt (apiParams (p\<lparr>fl_startDate := Some []\<rparr>))) ''from_ts'' = None \<and>
   map_of (searchParams rt (apiParams (p\<lparr>fl_endDate := Some []\<rparr>))) ''to_ts'' = None"
proof (intro conjI impI)
  assume "new_URL rt (base @ endpoint) = None"
  then show "request rt base net endpoint (Some ps) = ([], Inl TypeError)"
    by (rule request_not_parsed)
next
  assume u: "new_URL rt (base @ endpoint) = Some url"
  show "fst (request rt base net endpoint (Some ps)) = [request_url rt url (Some ps)]"
    by (simp add: request_parsed [OF u])
  show "req_url (request_url rt url (Some ps)) = pu_href url"
    by (simp add: request_url_def)
  show "req_query (request_url rt url (Some ps)) =
        pu_query url @ map (\<lambda>(k, v). (k, String rt v))
          (filter (\<lambda>(k, v). v \<noteq> JUndefined \<and> v \<noteq> JNull \<and> v \<noteq> JStr []) ps)"
    by (rule request_url_query)
qed (simp_all add: fetchLogs_empty_filters map_of_search map_of_from_ts map_of_to_ts)

theorem request_appends_present_values_witness:
  "fst (request
     \<lparr>rt_parse_url = (\<lambda>s. Some \<lparr>pu_href = s, pu_query = []\<rparr>), rt_number_text = (\<lambda>n. '''')\<rparr>
     ''http://localhost:8000'' (\<lambda>r. Rejected TypeError :: unit fetch_outcome) ''/logs''
     (Some [(''page'', JNum (Num 2)), (''search'', JStr []), (''level'', JNull),
            (''service'', JStr ''auth''), (''backend'', JUndefined), (''live'', JBool False)]))
     = [\<lparr>req_method = GET, req_url = ''http://localhost:8000/logs'',
         req_query = [(''page'', ''2''), (''service'', ''auth''), (''live'', ''false'')],
         req_headers = [], req_body = NoBody\<rparr>] \<and>
   request
     \<lparr>rt_parse_url = (\<lambda>s. Some \<lparr>pu_href = s, pu_query = []\<rparr>), rt_number_text = (\<lambda>n. '''')\<rparr>
     ''/api'' (\<lambda>r. Rejected TypeError :: unit fetch_outcome) ''/logs''
     (Some [(''page'', JNum (Num 2)), (''search'', JStr []), (''level'', JNull),
            (''service'', JStr ''auth''), (''backend'', JUndefined), (''live'', JBool False)])
     = ([], Inl TypeError)"
  using
    request_appends_present_values
      [of "\<lparr>rt_parse_url = (\<lambda>s. Some \<lparr>pu_href = s, pu_query = []\<rparr>), rt_number_text = (\<lambda>n. '''')\<rparr>"
        "''http://localhost:8000''" "''/logs''" "\<lambda>r. Rejected TypeError :: unit fetch_outcome"
        "[(''page'', JNum (Num 2)), (''search'', JStr []), (''level'', JNull),
          (''service'', JStr ''auth''), (''backend'', JUndefined), (''live'', JBool False)]"
        "\<lparr>pu_href = ''http://localhost:8000/logs'', pu_query = []\<rparr>"
        "\<lambda>r. Rejected TypeError" "loadData_params initial None"]
    request_appends_present_values
      [of "\<lparr>rt_parse_url = (\<lambda>s. Some \<lparr>pu_href = s, pu_query = []\<rparr>), rt_number_text = (\<lambda>n. '''')\<rparr>"
        "''/api''" "''/logs''" "\<lambda>r. Rejected TypeError :: unit fetch_outcome"
        "[(''page'', JNum (Num 2)), (''search'', JStr []), (''level'', JNull),
          (''service'', JStr ''auth''), (''backend'', JUndefined), (''live'', JBool False)]"
        "\<lparr>pu_href = ''http://localhost:8000/logs'', pu_query = []\<rparr>"
        "\<lambda>r. Rejected TypeError" "loadData_params initial None"]
  by (simp add: new_URL_http new_URL_relative request_url_def int_to_string_def digits.simps)

text \<open>
  Claim C7. \<open>getServices\<close> with backend \<open>'s3'\<close> returns \<open>{services: []}\<close> and does not call
  \<open>fetch\<close>. With any other backend value, or none, it builds the URL of \<open>/logs/services\<close>
  under the base URL; when that text is a URL it calls \<open>fetch\<close> once, with a GET of that
  URL, with the \<open>backend\<close> parameter appended when the value is a non-empty string; when
  it is not a URL, \<open>new URL\<close> throws a \<open>TypeError\<close> and \<open>fetch\<close> is not called.
\<close>

theorem getServices_s3_is_empty:
  "getServices rt base net (Some ''s3'') = ([], Inr \<lparr>services = []\<rparr>) \<and>
   (backend \<noteq> Some ''s3'' \<and> new_URL rt (base @ ''/logs/services'') = Some url \<longrightarrow>
      fst (getServices rt base net backend) =
        [\<lparr>req_method = GET, req_url = pu_href url,
          req_query = pu_query url
            @ (case backend of None \<Rightarrow> [] | Some b \<Rightarrow> if b = '''' then [] else [(''backend'', b)]),
          req_headers = [], req_body = NoBody\<rparr>]) \<and>
   (backend \<noteq> Some ''s3'' \<and> new_URL rt (base @ ''/logs/services'') = None \<longrightarrow>
      getServices rt base net backend = ([], Inl TypeError))"
  by (simp add: getServices_def request_parsed request_not_parsed request_url_def assign_if_def
        split: option.splits)

theorem getServices_s3_is_empty_witness:
  "getServices
     \<lparr>rt_parse_url = (\<lambda>s. Some \<lparr>pu_href = s, pu_query = []\<rparr>), rt_number_text = (\<lambda>n. '''')\<rparr>
     ''http://localhost:8000'' (\<lambda>r. Rejected TypeError) (Some ''s3'')
     = ([], Inr \<lparr>services = []\<rparr>) \<and>
   fst (getServices
     \<lparr>rt_parse_url = (\<lambda>s. Some \<lparr>pu_href = s, pu_query = []\<rparr>), rt_number_text = (\<lambda>n. '''')\<rparr>
     ''http://localhost:8000'' (\<lambda>r. Rejected TypeError) (Some ''sqlite'')) =
     [\<lparr>req_method = GET, req_url = ''http://localhost:8000/logs/services'',
       req_query = [(''backend'', ''sqlite'')], req_headers = [], req_body = NoBody\<rparr>] \<and>
   getServices
     \<lparr>rt_parse_url = (\<lambda>s. Some \<lparr>pu_href = s, pu_query = []\<rparr>), rt_number_text = (\<lambda>n. '''')\<rparr>
     ''/api'' (\<lambda>r. Rejected TypeError) (Some ''sqlite'')
     = ([], Inl TypeError)"
  using
    getServices_s3_is_empty
      [of "\<lparr>rt_parse_url = (\<lambda>s. Some \<lparr>pu_href = s, pu_query = []\<rparr>), rt_number_text = (\<lambda>n. '''')\<rparr>"
        "''http://localhost:8000''" "\<lambda>r. Rejected TypeError" "Some ''sqlite''"
        "\<lparr>pu_href = ''http://localhost:8000/logs/services'', pu_query = []\<rparr>"]
    getServices_s3_is_empty
      [of "\<lparr>rt_parse_url = (\<lambda>s. Some \<lparr>pu_href = s, pu_query = []\<rparr>), rt_number_text = (\<lambda>n. '''')\<rparr>"
        "''/api''" "\<lambda>r. Rejected TypeError" "Some ''sqlite''"
        "\<lparr>pu_href = ''http://localhost:8000/logs/services'', pu_query = []\<rparr>"]
  by (simp add: new_URL_http new_URL_relative)

text \<open>
  Claim C8. When \<open>POST /join\<close> is answered ok with the data of a user, \<open>registerUser\<close>
  returns that user and saves credentials, in memory and in \<open>localStorage\<close>, that hold
  the user and whose \<open>oauth_token\<close> is the user's \<open>api_key\<close>: one string serves as both
  credentials. So it is after every successful \<open>registerUser\<close>.
\<close>

theorem registerUser_token_is_api_key:
  "(net (post_json (baseUrl s @ ''/join'') NoBody) = Responded r \<and> ok r \<and>
      resp_json r = Some userData \<longrightarrow>
      (\<exists>s' c. registerUser rt net s = (s', [post_json (baseUrl s @ ''/join'') NoBody], Inr userData) \<and>
         credentials s' = Some c \<and> localStorage s' STORAGE_KEY = Some c \<and>
         sc_user c = userData \<and> sc_oauth_token c = u_api_key userData \<and>
         sc_oauth_token c = u_api_key (sc_user c) \<and> sc_projects c = [])) \<and>
   (registerUser rt net s = (s', reqs, Inr user) \<longrightarrow>
      (\<exists>c. credentials s' = Some c \<and> localStorage s' STORAGE_KEY = Some c \<and> sc_user c = user \<and>
           sc_oauth_token c = u_api_key (sc_user c)))"
proof (intro conjI impI)
  assume "net (post_json (baseUrl s @ ''/join'') NoBody) = Responded r \<and> ok r \<and>
      resp_json r = Some userData"
  then show "\<exists>s' c. registerUser rt net s
         = (s', [post_json (baseUrl s @ ''/join'') NoBody], Inr userData) \<and>
         credentials s' = Some c \<and> localStorage s' STORAGE_KEY = Some c \<and>
         sc_user c = userData \<and> sc_oauth_token c = u_api_key userData \<and>
         sc_oauth_token c = u_api_key (sc_user c) \<and> sc_projects c = []"
    by (simp add: registerUser_def Let_def json_or_throw_ok saveCredentials_def)
next
  assume "registerUser rt net s = (s', reqs, Inr user)"
  then show "\<exists>c. credentials s' = Some c \<and> localStorage s' STORAGE_KEY = Some c \<and> sc_user c = user \<and>
           sc_oauth_token c = u_api_key (sc_user c)"
    by (auto simp: registerUser_def Let_def saveCredentials_def split: sum.splits)
qed

theorem registerUser_token_is_api_key_witness:
  "\<exists>s' c. registerUser
       \<lparr>rt_parse_url = (\<lambda>s. Some \<lparr>pu_href = s, pu_query = []\<rparr>), rt_number_text = (\<lambda>n. '''')\<rparr>
       (\<lambda>r. Responded \<lparr>resp_status = 200, resp_statusText = ''OK'', resp_errorData = NotJson,
              resp_json = Some \<lparr>u_id = ''u1'', u_username = ''brave-otter'',
                                u_api_key = ''tok_123''\<rparr>\<rparr>)
       \<lparr>baseUrl = ''http://localhost:8000'', credentials = None, localStorage = Map.empty\<rparr>
     = (s',
        [\<lparr>req_method = POST, req_url = ''http://localhost:8000/join'', req_query = [],
          req_headers = [(''Content-Type'', ''application/json'')], req_body = NoBody\<rparr>],
        Inr \<lparr>u_id = ''u1'', u_username = ''brave-otter'', u_api_key = ''tok_123''\<rparr>) \<and>
     credentials s' = Some c \<and> localStorage s' STORAGE_KEY = Some c \<and>
     sc_oauth_token c = ''tok_123'' \<and> u_api_key (sc_user c) = ''tok_123''"
  using registerUser_token_is_api_key
    [of "\<lambda>r. Responded \<lparr>resp_status = 200, resp_statusText = ''OK'', resp_errorData = NotJson,
              resp_json = Some \<lparr>u_id = ''u1'', u_username = ''brave-otter'',
                                u_api_key = ''tok_123''\<rparr>\<rparr>"
      "\<lparr>baseUrl = ''http://localhost:8000'', credentials = None, localStorage = Map.empty\<rparr>"
      "\<lparr>resp_status = 200, resp_statusText = ''OK'', resp_errorData = NotJson,
              resp_json = Some \<lparr>u_id = ''u1'', u_username = ''brave-otter'',
                                u_api_key = ''tok_123''\<rparr>\<rparr>"
      "\<lparr>u_id = ''u1'', u_username = ''brave-otter'', u_api_key = ''tok_123''\<rparr>"
      "\<lparr>rt_parse_url = (\<lambda>s. Some \<lparr>pu_href = s, pu_query = []\<rparr>), rt_number_text = (\<lambda>n. '''')\<rparr>"
      "\<lparr>baseUrl = ''http://localhost:8000'', credentials = None, localStorage = Map.empty\<rparr>"
      "[]"
      "\<lparr>u_id = ''u1'', u_username = ''brave-otter'', u_api_key = ''tok_123''\<rparr>"]
  by (auto simp: ok_def post_json_def)

section \<open>Properties of the logs page\<close>

lemma ceil_div_bounds:
  fixes a b :: int
  assumes "0 < b"
  shows "(\<lceil>real_of_int a / real_of_int b\<rceil> - 1) * b < a \<and> a \<le> \<lceil>real_of_int a / real_of_int b\<rceil> * b"
proof -
  let ?n = "\<lceil>real_of_int a / real_of_int b\<rceil>"
  have pos: "0 < real_of_int b" using assms by simp
  have "real_of_int a / real_of_int b \<le> real_of_int ?n" by (rule le_of_int_ceiling)
  then have "real_of_int a \<le> real_of_int ?n * real_of_int b"
    by (simp only: pos_divide_le_eq [OF pos])
  then have up: "a \<le> ?n * b" by (metis of_int_le_iff of_int_mult)
  have "real_of_int ?n - 1 < real_of_int a / real_of_int b" by linarith
  then have "(real_of_int ?n - 1) * real_of_int b < real_of_int a"
    using pos by (simp add: pos_less_divide_eq)
  then have "real_of_int ((?n - 1) * b) < real_of_int a" by simp
  then have lo: "(?n - 1) * b < a" by (simp only: of_int_less_iff)
  from lo up show ?thesis by simp
qed

lemma run_Nil: "run [] = initial"
  by (simp add: run_def)

lemma run_snoc: "run (evs @ [e]) = step (run evs) e"
  by (simp add: run_def)

lemma previousClick_page:
  "pagination s = \<lparr>pg_page = Num n, pg_size = sz, pg_total = t\<rparr> \<Longrightarrow>
   pagination (previousClick s) = \<lparr>pg_page = Num (max 1 (n - 1)), pg_size = sz, pg_total = t\<rparr>"
  by (auto simp: previousClick_def handlePageChange_def js_strict_eq_def math_max_def js_sub_def)

lemma totalPages_50:
  "pagination s = \<lparr>pg_page = pg, pg_size = Num 50, pg_total = Num t\<rparr> \<Longrightarrow>
   totalPages s = Num \<lceil>real_of_int t / 50\<rceil>"
  by (simp add: totalPages_def)

lemma nextClick_page:
  "pagination s = \<lparr>pg_page = Num n, pg_size = Num 50, pg_total = Num t\<rparr> \<Longrightarrow>
   pagination (nextClick s) =
     \<lparr>pg_page = Num (if n < \<lceil>real_of_int t / 50\<rceil> then n + 1 else n), pg_size = Num 50,
      pg_total = Num t\<rparr>"
  by (auto simp: nextClick_def handlePageChange_def totalPages_def js_ge_def math_min_def)

lemma step_page_ok: "page_ok s \<Longrightarrow> page_ok (step s e)"
proof (cases e)
  case PreviousClick
  assume "page_ok s"
  then obtain n t where p: "pagination s = \<lparr>pg_page = Num n, pg_size = Num 50, pg_total = Num t\<rparr>"
    and n: "1 \<le> n" unfolding page_ok_def by blast
  show ?thesis unfolding PreviousClick page_ok_def step.simps previousClick_page [OF p] by simp
next
  case NextClick
  assume "page_ok s"
  then obtain n t where p: "pagination s = \<lparr>pg_page = Num n, pg_size = Num 50, pg_total = Num t\<rparr>"
    and n: "1 \<le> n" unfolding page_ok_def by blast
  show ?thesis unfolding NextClick page_ok_def step.simps nextClick_page [OF p] using n by simp
qed (auto simp: page_ok_def handleFilterChange_def handleQueryChange_def setStorageBackend_def
       loaded_def)

lemma run_page_ok: "page_ok (run evs)"
proof (induction evs rule: rev_induct)
  case Nil
  show ?case by (simp add: run_Nil page_ok_def initial_def)
next
  case (snoc e evs)
  then show ?case by (simp add: run_snoc step_page_ok)
qed

text \<open>
  Claim C9, as the page has it. In every state the page reaches, the page number is an
  integer of at least 1 and the page size is 50. A change of the filters or of the search
  text resets the page to 1. Previous sets the page to \<open>max(1, page - 1)\<close>, which is at
  least 1 and at most the page it leaves. Next sets the page to \<open>page + 1\<close> when
  \<open>page < ceil(total / size)\<close> and leaves it otherwise, so the new page is at least 1 and
  at most the larger of the old page and \<open>ceil(total / size)\<close>: neither button moves a page
  that is within \<open>ceil(total / size)\<close> beyond it.
\<close>

theorem page_stays_at_least_one:
  "\<exists>n t. pagination (run evs) = \<lparr>pg_page = Num n, pg_size = Num 50, pg_total = Num t\<rparr> \<and>
     totalPages (run evs) = Num \<lceil>real_of_int t / 50\<rceil> \<and>
     1 \<le> n \<and>
     pg_page (pagination (handleFilterChange newFilters (run evs))) = Num 1 \<and>
     pg_page (pagination (handleQueryChange q (run evs))) = Num 1 \<and>
     pagination (previousClick (run evs))
       = \<lparr>pg_page = Num (max 1 (n - 1)), pg_size = Num 50, pg_total = Num t\<rparr> \<and>
     pagination (nextClick (run evs))
       = \<lparr>pg_page = Num (if n < \<lceil>real_of_int t / 50\<rceil> then n + 1 else n), pg_size = Num 50,
          pg_total = Num t\<rparr> \<and>
     1 \<le> max 1 (n - 1) \<and> max 1 (n - 1) \<le> n \<and>
     1 \<le> (if n < \<lceil>real_of_int t / 50\<rceil> then n + 1 else n) \<and>
     (if n < \<lceil>real_of_int t / 50\<rceil> then n + 1 else n) \<le> max n \<lceil>real_of_int t / 50\<rceil>"
proof -
  from run_page_ok [of evs] obtain n t
    where p: "pagination (run evs) = \<lparr>pg_page = Num n, pg_size = Num 50, pg_total = Num t\<rparr>"
      and n: "1 \<le> n"
    unfolding page_ok_def by blast
  show ?thesis
    apply (rule exI [of _ n], rule exI [of _ t])
    using n
    by (simp add: p totalPages_50 [OF p] previousClick_page [OF p] nextClick_page [OF p]
          handleFilterChange_def handleQueryChange_def)
qed

theorem page_stays_at_least_one_witness:
  "pagination (nextClick (run [Loaded 120, NextClick, NextClick, NextClick]))
     = \<lparr>pg_page = Num 3, pg_size = Num 50, pg_total = Num 120\<rparr> \<and>
   pagination (previousClick (run [Loaded 120, NextClick, NextClick, NextClick]))
     = \<lparr>pg_page = Num 2, pg_size = Num 50, pg_total = Num 120\<rparr>"
  using page_stays_at_least_one [of "[Loaded 120, NextClick, NextClick, NextClick]"]
  by (simp add: run_def initial_def totalPages_def loaded_def nextClick_def previousClick_def
        handlePageChange_def setStorageBackend_def js_ge_def js_strict_eq_def math_min_def
        math_max_def js_sub_def)

text \<open>
  The page is not within \<open>ceil(total / size)\<close> at all times: at the start the page is 1
  and there are 0 pages; and when the total drops to 0 on page 3, Previous moves to page
  2, above the 0 pages there are.
\<close>

theorem page_in_range_counterexample:
  "pg_page (pagination (run [])) = Num 1 \<and> totalPages (run []) = Num 0 \<and>
   \<not> js_ge (totalPages (run [])) (pg_page (pagination (run []))) \<and>
   pg_page (pagination (run [Loaded 150, NextClick, NextClick, BackendChange ''s3'', Loaded 0]))
     = Num 3 \<and>
   pg_page (pagination
     (run [Loaded 150, NextClick, NextClick, BackendChange ''s3'', Loaded 0, PreviousClick]))
     = Num 2 \<and>
   totalPages (run [Loaded 150, NextClick, NextClick, BackendChange ''s3'', Loaded 0, PreviousClick])
     = Num 0"
  by (simp add: run_def initial_def totalPages_def loaded_def nextClick_def previousClick_def
        handlePageChange_def setStorageBackend_def js_ge_def js_strict_eq_def math_min_def
        math_max_def js_sub_def)

section \<open>Properties of the pipeline\<close>

lemma set_insert_entry: "set (insert_entry e xs) = insert e (set xs)"
  by (induction xs) auto

lemma length_insert_entry: "length (insert_entry e xs) = Suc (length xs)"
  by (induction xs) auto

lemma set_sort_entries: "set (sort_entries es) = set es"
  unfolding sort_entries_def by (induction es) (simp_all add: set_insert_entry)

lemma length_sort_entries: "length (sort_entries es) = length es"
  unfolding sort_entries_def by (induction es) (simp_all add: length_insert_entry)

lemma set_hits: "set (hits store pid f) = {e \<in> set store. e_project e = pid \<and> matches f e}"
  by (simp add: hits_def set_sort_entries)

lemma length_hits:
  "length (hits store pid f) = length (filter (\<lambda>e. e_project e = pid \<and> matches f e) store)"
  by (simp add: hits_def length_sort_entries)

lemma query_entries_hits: "set (fst (query store pid f)) \<subseteq> set (hits store pid f)"
proof -
  have "set (fst (query store pid f)) \<subseteq> set (drop (nat ((q_page f - 1) * q_size f)) (hits store pid f))"
    by (simp add: query_def set_take_subset)
  also have "\<dots> \<subseteq> set (hits store pid f)" by (rule set_drop_subset)
  finally show ?thesis .
qed

lemma query_entries_project: "e \<in> set (fst (query store pid f)) \<Longrightarrow> e_project e = pid"
  using query_entries_hits [of store pid f] by (auto simp: set_hits)

lemma query_service_entries:
  "query_service store pid f = Inr r \<Longrightarrow> qp_entries r = fst (query store pid f)"
  by (auto simp: query_service_def split: if_splits prod.splits)

lemma query_total:
  "snd (query store pid f) = int (length (filter (\<lambda>e. e_project e = pid \<and> matches f e) store))"
  by (simp add: query_def length_hits)

text \<open>
  Claim C1. An entry stored under project \<open>A\<close> is in no page that the adapter's \<open>query\<close>
  or the query service returns for a different project \<open>B\<close>, whatever the filter (search,
  level, service, time range, page, size), and the total they report counts entries of
  \<open>B\<close> only. The client names the project of a query by the \<open>project_id\<close> parameter,
  which carries the identifier of the selected project.
\<close>

theorem query_scoped_to_project:
  "e_project e = A \<Longrightarrow> A \<noteq> B \<Longrightarrow>
   e \<notin> set (fst (query store B f)) \<and>
   (query_service store B f = Inr r \<longrightarrow> e \<notin> set (qp_entries r)) \<and>
   snd (query store B f) = int (length (filter (\<lambda>x. e_project x = B \<and> matches f x) store)) \<and>
   map_of (searchParams rt (apiParams (loadData_params s (Some project)))) ''project_id''
     = (if pr_id project = '''' then None else Some (pr_id project))"
  using query_entries_project [of e store B f] query_service_entries [of store B f r]
  by (auto simp: query_total map_of_project_id loadData_params_def)

theorem query_scoped_to_project_witness:
  "\<lparr>e_identifier = 1, e_timestamp = 100, e_level = INFO, e_service = ''auth'',
     e_message = ''boot ok'', e_metadata = [], e_project = ''A''\<rparr>
   \<notin> set (fst (query
        [\<lparr>e_identifier = 1, e_timestamp = 100, e_level = INFO, e_service = ''auth'',
           e_message = ''boot ok'', e_metadata = [], e_project = ''A''\<rparr>,
         \<lparr>e_identifier = 2, e_timestamp = 101, e_level = ERROR, e_service = ''shop'',
           e_message = ''cart failed'', e_metadata = [], e_project = ''B''\<rparr>]
        ''B''
        \<lparr>q_search = None, q_level = All_values, q_service = All_values, q_start = None,
         q_end = None, q_page = 1, q_size = 10\<rparr>)) \<and>
   snd (query
        [\<lparr>e_identifier = 1, e_timestamp = 100, e_level = INFO, e_service = ''auth'',
           e_message = ''boot ok'', e_metadata = [], e_project = ''A''\<rparr>,
         \<lparr>e_identifier = 2, e_timestamp = 101, e_level = ERROR, e_service = ''shop'',
           e_message = ''cart failed'', e_metadata = [], e_project = ''B''\<rparr>]
        ''B''
        \<lparr>q_search = None, q_level = All_values, q_service = All_values, q_start = None,
         q_end = None, q_page = 1, q_size = 10\<rparr>) = 1"
  using query_scoped_to_project
    [of "\<lparr>e_identifier = 1, e_timestamp = 100, e_level = INFO, e_service = ''auth'',
     e_message = ''boot ok'', e_metadata = [], e_project = ''A''\<rparr>" "''A''" "''B''"
     "[\<lparr>e_identifier = 1, e_timestamp = 100, e_level = INFO, e_service = ''auth'',
           e_message = ''boot ok'', e_metadata = [], e_project = ''A''\<rparr>,
         \<lparr>e_identifier = 2, e_timestamp = 101, e_level = ERROR, e_service = ''shop'',
           e_message = ''cart failed'', e_metadata = [], e_project = ''B''\<rparr>]"
     "\<lparr>q_search = None, q_level = All_values, q_service = All_values, q_start = None,
         q_end = None, q_page = 1, q_size = 10\<rparr>"
     "\<lparr>qp_entries = [], qp_total = 0, qp_page = 1, qp_size = 10, qp_totalPages = 0\<rparr>"
     "\<lparr>rt_parse_url = (\<lambda>s. Some \<lparr>pu_href = s, pu_query = []\<rparr>), rt_number_text = (\<lambda>n. '''')\<rparr>" initial
     "\<lparr>pr_id = ''B'', pr_name = ''shop'', pr_description = None, pr_api_key = ''key_abc:B'',
       pr_owner_id = ''u1'', pr_created_at = ''2024-05-01T10:00:00Z''\<rparr>"]
  by (simp add: matches_def)

lemma length_accept:
  "length (accept parse_iso now pid next_id raws)
     = length (filter (\<lambda>raw. validate parse_iso now raw \<noteq> None) raws)"
  by (induction raws arbitrary: next_id) (auto split: option.splits)

lemma accept_messages:
  "map e_message (accept parse_iso now pid next_id raws)
     = map raw_message (filter (\<lambda>raw. validate parse_iso now raw \<noteq> None) raws)"
  by (induction raws arbitrary: next_id) (auto split: option.splits)

lemma valid_invalid_length:
  "length (filter (\<lambda>raw. validate parse_iso now raw \<noteq> None) raws)
     + length (filter (\<lambda>raw. validate parse_iso now raw = None) raws) = length raws"
  by (induction raws) auto

lemma ingestBatch_counts:
  assumes "authenticateIngestion digest (g_registry g) credential = Inr projectID"
    and "g_queue_up g"
  shows "\<exists>g' r. ingestBatch digest parse_iso now wording rawEntries credential g = (g', Inr r) \<and>
     b_queued r + b_failed r = length rawEntries \<and>
     b_queued r = length (filter (\<lambda>raw. validate parse_iso now raw \<noteq> None) rawEntries) \<and>
     b_failed r = length (filter (\<lambda>raw. validate parse_iso now raw = None) rawEntries) \<and>
     g_queue g' = g_queue g @ accept parse_iso now projectID (g_next_id g) rawEntries \<and>
     map e_message (accept parse_iso now projectID (g_next_id g) rawEntries)
       = map raw_message (filter (\<lambda>raw. validate parse_iso now raw \<noteq> None) rawEntries)"
proof -
  let ?acc = "accept parse_iso now projectID (g_next_id g) rawEntries"
  let ?r = "\<lparr>b_status = fst (wording (length ?acc) (length rawEntries - length ?acc)),
             b_message = snd (wording (length ?acc) (length rawEntries - length ?acc)),
             b_queued = length ?acc, b_failed = length rawEntries - length ?acc\<rparr>"
  let ?g' = "g\<lparr>g_queue := g_queue g @ ?acc, g_next_id := g_next_id g + length ?acc\<rparr>"
  have result: "ingestBatch digest parse_iso now wording rawEntries credential g = (?g', Inr ?r)"
    using assms by (simp add: ingestBatch_def Let_def)
  have q: "length ?acc = length (filter (\<lambda>raw. validate parse_iso now raw \<noteq> None) rawEntries)"
    by (rule length_accept)
  have split: "length (filter (\<lambda>raw. validate parse_iso now raw \<noteq> None) rawEntries)
     + length (filter (\<lambda>raw. validate parse_iso now raw = None) rawEntries) = length rawEntries"
    by (rule valid_invalid_length)
  have f: "length rawEntries - length ?acc
      = length (filter (\<lambda>raw. validate parse_iso now raw = None) rawEntries)"
    using q split by linarith
  have total: "length ?acc + (length rawEntries - length ?acc) = length rawEntries"
    using q split by linarith
  have sel: "b_queued ?r = length ?acc" "b_failed ?r = length rawEntries - length ?acc"
    "g_queue ?g' = g_queue g @ ?acc"
    by simp_all
  show ?thesis
    apply (rule exI [of _ ?g'], rule exI [of _ ?r])
    unfolding sel
    by (intro conjI result total q f refl accept_messages)
qed

lemma ingestLogsBatch_ok:
  "net (post_json (base @ ''/ingest/batch'') (BatchBody logs)) = Responded resp \<Longrightarrow> ok resp \<Longrightarrow>
   resp_json resp = Some body \<Longrightarrow>
   ingestLogsBatch rt base net logs = ([post_json (base @ ''/ingest/batch'') (BatchBody logs)], Inr body)"
  by (simp add: ingestLogsBatch_def Let_def json_or_throw_ok)

text \<open>
  Claim C3. With a valid credential and a queue that can be reached, \<open>ingestBatch\<close>
  answers every batch with counts, never with an error: \<open>queued\<close> is the number of valid
  entries, \<open>failed\<close> the number of invalid ones, \<open>queued + failed\<close> is the length of the
  batch, and the valid entries are appended to the queue in the order of the batch. The
  client's \<open>ingestLogsBatch\<close> returns the body \<open>{status, message, queued, failed}\<close> of an
  ok answer as it is.
\<close>

theorem ingestBatch_partial_success:
  assumes "authenticateIngestion digest (g_registry g) credential = Inr projectID"
    and "g_queue_up g"
  shows "(\<exists>g' r. ingestBatch digest parse_iso now wording rawEntries credential g = (g', Inr r) \<and>
     b_queued r + b_failed r = length rawEntries \<and>
     b_queued r = length (filter (\<lambda>raw. validate parse_iso now raw \<noteq> None) rawEntries) \<and>
     b_failed r = length (filter (\<lambda>raw. validate parse_iso now raw = None) rawEntries) \<and>
     g_queue g' = g_queue g @ accept parse_iso now projectID (g_next_id g) rawEntries \<and>
     map e_message (accept parse_iso now projectID (g_next_id g) rawEntries)
       = map raw_message (filter (\<lambda>raw. validate parse_iso now raw \<noteq> None) rawEntries)) \<and>
   (net (post_json (base @ ''/ingest/batch'') (BatchBody logs)) = Responded resp \<and> ok resp \<and>
      resp_json resp = Some body \<longrightarrow>
      ingestLogsBatch rt base net logs
        = ([post_json (base @ ''/ingest/batch'') (BatchBody logs)], Inr body))"
  using ingestBatch_counts [OF assms] ingestLogsBatch_ok by blast

theorem ingestBatch_partial_success_witness:
  "\<exists>g' r. ingestBatch (\<lambda>k. k) (\<lambda>t. None) 1700000000
       (\<lambda>queued failed. (''success'', ''batch processed''))
       [\<lparr>raw_message = ''boot ok'', raw_level = Some ''INFO'', raw_service = ''auth'',
          raw_timestamp = None, raw_metadata = []\<rparr>,
        \<lparr>raw_message = ''cart failed'', raw_level = Some ''BOGUS'', raw_service = ''shop'',
          raw_timestamp = None, raw_metadata = []\<rparr>,
        \<lparr>raw_message = ''paid'', raw_level = None, raw_service = ''shop'',
          raw_timestamp = None, raw_metadata = []\<rparr>]
       ''key1''
       \<lparr>g_registry = [\<lparr>k_digest = ''key1'', k_project = ''P1'', k_revoked = False\<rparr>],
        g_queue = [], g_queue_up = True, g_next_id = 7\<rparr> = (g', Inr r) \<and>
     b_queued r = 2 \<and> b_failed r = 1 \<and> map e_message (g_queue g') = [''boot ok'', ''paid'']"
proof -
  have auth: "authenticateIngestion (\<lambda>k. k)
      (g_registry \<lparr>g_registry = [\<lparr>k_digest = ''key1'', k_project = ''P1'', k_revoked = False\<rparr>],
        g_queue = [], g_queue_up = True, g_next_id = 7\<rparr>) ''key1'' = Inr ''P1''"
    by (simp add: authenticateIngestion_def)
  have up: "g_queue_up \<lparr>g_registry = [\<lparr>k_digest = ''key1'', k_project = ''P1'', k_revoked = False\<rparr>],
        g_queue = [], g_queue_up = True, g_next_id = 7\<rparr>"
    by simp
  from ingestBatch_partial_success [OF auth up, of "\<lambda>t. None" 1700000000
      "\<lambda>queued failed. (''success'', ''batch processed'')"
      "[\<lparr>raw_message = ''boot ok'', raw_level = Some ''INFO'', raw_service = ''auth'',
          raw_timestamp = None, raw_metadata = []\<rparr>,
        \<lparr>raw_message = ''cart failed'', raw_level = Some ''BOGUS'', raw_service = ''shop'',
          raw_timestamp = None, raw_metadata = []\<rparr>,
        \<lparr>raw_message = ''paid'', raw_level = None, raw_service = ''shop'',
          raw_timestamp = None, raw_metadata = []\<rparr>]"
      "\<lambda>req. Rejected TypeError" "''http://localhost:8000''" "[]"
      "\<lparr>resp_status = 500, resp_statusText = ''Internal Server Error'', resp_errorData = NotJson,
        resp_json = None\<rparr>"
      "\<lparr>br_status = ''success'', br_message = ''batch processed'', br_queued = 2, br_failed = 1\<rparr>"
      "\<lparr>rt_parse_url = (\<lambda>s. Some \<lparr>pu_href = s, pu_query = []\<rparr>), rt_number_text = (\<lambda>n. '''')\<rparr>"]
  show ?thesis
    by (auto simp: validate_def parse_level_def)
qed

text \<open>
  Claim C4. The query service rejects \<open>size \<le> 0\<close> with \<open>InvalidArgument\<close>. For
  \<open>size > 0\<close> it answers with the number of matching entries as \<open>total\<close> and with
  \<open>totalPages = ceil(total / size)\<close>, the least number of pages of that size that hold
  \<open>total\<close> entries; a page beyond \<open>totalPages\<close> has no entries and the same \<open>total\<close>. The
  page count that the logs page computes from a total \<open>T\<close> and a size \<open>S > 0\<close> is
  \<open>ceil(T / S)\<close> as well.
\<close>

theorem pagination_total_pages:
  "(q_size f \<le> 0 \<longrightarrow> query_service store pid f = Inl InvalidArgument) \<and>
   (0 < q_size f \<longrightarrow>
      (\<exists>r. query_service store pid f = Inr r \<and>
           qp_total r = int (length (filter (\<lambda>e. e_project e = pid \<and> matches f e) store)) \<and>
           qp_totalPages r = \<lceil>real_of_int (qp_total r) / real_of_int (q_size f)\<rceil> \<and>
           (qp_totalPages r - 1) * q_size f < qp_total r \<and>
           qp_total r \<le> qp_totalPages r * q_size f \<and>
           (qp_totalPages r < q_page f \<longrightarrow> qp_entries r = []))) \<and>
   (0 < S \<longrightarrow>
      (\<exists>n. totalPages \<lparr>filters = fs, pagination = \<lparr>pg_page = pg, pg_size = Num S, pg_total = Num T\<rparr>,
                       storageBackend = b\<rparr> = Num n \<and>
           n = \<lceil>real_of_int T / real_of_int S\<rceil> \<and> (n - 1) * S < T \<and> T \<le> n * S))"
proof (intro conjI impI)
  assume "q_size f \<le> 0"
  then show "query_service store pid f = Inl InvalidArgument"
    by (simp add: query_service_def)
next
  assume pos: "0 < q_size f"
  let ?t = "int (length (hits store pid f))"
  let ?n = "\<lceil>real_of_int ?t / real_of_int (q_size f)\<rceil>"
  let ?r = "\<lparr>qp_entries = fst (query store pid f), qp_total = ?t, qp_page = q_page f,
             qp_size = q_size f, qp_totalPages = ?n\<rparr>"
  have r: "query_service store pid f = Inr ?r"
    using pos by (simp add: query_service_def query_def)
  have b: "(?n - 1) * q_size f < ?t \<and> ?t \<le> ?n * q_size f"
    by (rule ceil_div_bounds [OF pos])
  have empty: "fst (query store pid f) = []" if late: "?n < q_page f"
  proof -
    have "?n \<le> q_page f - 1" using late by simp
    then have "?n * q_size f \<le> (q_page f - 1) * q_size f"
      using pos by (simp add: mult_right_mono)
    with b have "?t \<le> (q_page f - 1) * q_size f" by linarith
    then have "length (hits store pid f) \<le> nat ((q_page f - 1) * q_size f)" by linarith
    then show ?thesis by (simp add: query_def)
  qed
  show "\<exists>r. query_service store pid f = Inr r \<and>
           qp_total r = int (length (filter (\<lambda>e. e_project e = pid \<and> matches f e) store)) \<and>
           qp_totalPages r = \<lceil>real_of_int (qp_total r) / real_of_int (q_size f)\<rceil> \<and>
           (qp_totalPages r - 1) * q_size f < qp_total r \<and>
           qp_total r \<le> qp_totalPages r * q_size f \<and>
           (qp_totalPages r < q_page f \<longrightarrow> qp_entries r = [])"
    apply (rule exI [of _ ?r])
    using r b empty by (simp add: length_hits)
next
  assume pos: "0 < S"
  show "\<exists>n. totalPages \<lparr>filters = fs, pagination = \<lparr>pg_page = pg, pg_size = Num S, pg_total = Num T\<rparr>,
                       storageBackend = b\<rparr> = Num n \<and>
           n = \<lceil>real_of_int T / real_of_int S\<rceil> \<and> (n - 1) * S < T \<and> T \<le> n * S"
    apply (rule exI [of _ "\<lceil>real_of_int T / real_of_int S\<rceil>"])
    using pos ceil_div_bounds [OF pos, of T] by (simp add: totalPages_def)
qed

theorem pagination_total_pages_witness:
  "query_service
     [\<lparr>e_identifier = 1, e_timestamp = 100, e_level = INFO, e_service = ''auth'',
        e_message = ''boot ok'', e_metadata = [], e_project = ''B''\<rparr>]
     ''B''
     \<lparr>q_search = None, q_level = All_values, q_service = All_values, q_start = None,
      q_end = None, q_page = 1, q_size = 0\<rparr> = Inl InvalidArgument \<and>
   (\<exists>r. query_service
     [\<lparr>e_identifier = 1, e_timestamp = 100, e_level = INFO, e_service = ''auth'',
        e_message = ''boot ok'', e_metadata = [], e_project = ''B''\<rparr>]
     ''B''
     \<lparr>q_search = None, q_level = All_values, q_service = All_values, q_start = None,
      q_end = None, q_page = 3, q_size = 10\<rparr> = Inr r \<and>
     qp_total r = 1 \<and> qp_totalPages r = 1 \<and> qp_entries r = []) \<and>
   totalPages \<lparr>filters = filters initial,
               pagination = \<lparr>pg_page = Num 1, pg_size = Num 50, pg_total = Num 120\<rparr>,
               storageBackend = ''sqlite''\<rparr> = Num 3"
proof -
  note a = pagination_total_pages
    [of "\<lparr>q_search = None, q_level = All_values, q_service = All_values, q_start = None,
      q_end = None, q_page = 1, q_size = 0\<rparr>"
     "[\<lparr>e_identifier = 1, e_timestamp = 100, e_level = INFO, e_service = ''auth'',
        e_message = ''boot ok'', e_metadata = [], e_project = ''B''\<rparr>]" "''B''"
     50 "filters initial" "Num 1" 120 "''sqlite''"]
  note b = pagination_total_pages
    [of "\<lparr>q_search = None, q_level = All_values, q_service = All_values, q_start = None,
      q_end = None, q_page = 3, q_size = 10\<rparr>"
     "[\<lparr>e_identifier = 1, e_timestamp = 100, e_level = INFO, e_service = ''auth'',
        e_message = ''boot ok'', e_metadata = [], e_project = ''B''\<rparr>]" "''B''"
     50 "filters initial" "Num 1" 120 "''sqlite''"]
  have 1: "query_service
     [\<lparr>e_identifier = 1, e_timestamp = 100, e_level = INFO, e_service = ''auth'',
        e_message = ''boot ok'', e_metadata = [], e_project = ''B''\<rparr>]
     ''B''
     \<lparr>q_search = None, q_level = All_values, q_service = All_values, q_start = None,
      q_end = None, q_page = 1, q_size = 0\<rparr> = Inl InvalidArgument"
    using a by simp
  from b obtain r where r: "query_service
     [\<lparr>e_identifier = 1, e_timestamp = 100, e_level = INFO, e_service = ''auth'',
        e_message = ''boot ok'', e_metadata = [], e_project = ''B''\<rparr>]
     ''B''
     \<lparr>q_search = None, q_level = All_values, q_service = All_values, q_start = None,
      q_end = None, q_page = 3, q_size = 10\<rparr> = Inr r"
    and t: "qp_total r = 1"
    and lo: "(qp_totalPages r - 1) * 10 < qp_total r" and hi: "qp_total r \<le> qp_totalPages r * 10"
    and late: "qp_totalPages r < 3 \<longrightarrow> qp_entries r = []"
    by (auto simp: matches_def)
  from t lo hi have tp: "qp_totalPages r = 1" by presburger
  with late have e: "qp_entries r = []" by simp
  from a have n: "totalPages \<lparr>filters = filters initial,
               pagination = \<lparr>pg_page = Num 1, pg_size = Num 50, pg_total = Num 120\<rparr>,
               storageBackend = ''sqlite''\<rparr> = Num 3"
    by auto
  with n 1 r t tp e show ?thesis by blast
qed

section \<open>Properties of ingestion and of API keys on the client\<close>

text \<open>
  Claim C5, as the client has it. \<open>ingestLog\<close> calls \<open>fetch\<close> once, with a POST to \<open>/ingest\<close>
  whose body is the log object. The body of an ok answer is returned as it is, \<open>{status,
  message, timestamp}\<close>. For an answer that is not ok an \<open>Error\<close> is thrown whose message
  is the \<open>detail\<close> of the JSON body, printed by \<open>String\<close>, when there is a truthy one, and
  \<open>HTTP <status>: <statusText>\<close> when the body is not JSON or has no truthy \<open>detail\<close>; so
  the status (401 or 422) is part of the error only when the server gives no detail. When
  the body of such an answer is the JSON value \<open>null\<close>, reading its \<open>detail\<close> throws a
  \<open>TypeError\<close> instead. A failed \<open>fetch\<close> is thrown on as it is.
\<close>

theorem ingestLog_outcomes:
  "\<exists>req. fst (ingestLog rt base net logData) = [req] \<and>
     req_method req = POST \<and> req_url req = base @ ''/ingest'' \<and> req_body req = LogBody logData \<and>
     (net req = Responded r \<and> ok r \<and> resp_json r = Some body
        \<longrightarrow> snd (ingestLog rt base net logData) = Inr body) \<and>
     (net req = Responded r \<and> ok r \<and> resp_json r = None
        \<longrightarrow> snd (ingestLog rt base net logData) = Inl SyntaxError) \<and>
     (net req = Responded r \<and> \<not> ok r \<and> resp_errorData r = JsonValue d \<and> truthy d
        \<longrightarrow> snd (ingestLog rt base net logData) = Inl (Error (String rt d))) \<and>
     (net req = Responded r \<and> \<not> ok r \<and> resp_errorData r = JsonValue d \<and> \<not> truthy d
        \<longrightarrow> snd (ingestLog rt base net logData)
            = Inl (Error (''HTTP '' @ digits (resp_status r) @ '': '' @ resp_statusText r))) \<and>
     (net req = Responded r \<and> \<not> ok r \<and> resp_errorData r = NotJson
        \<longrightarrow> snd (ingestLog rt base net logData)
            = Inl (Error (''HTTP '' @ digits (resp_status r) @ '': '' @ resp_statusText r))) \<and>
     (net req = Responded r \<and> \<not> ok r \<and> resp_errorData r = JsonNull
        \<longrightarrow> snd (ingestLog rt base net logData) = Inl TypeError) \<and>
     (net req = Rejected e \<longrightarrow> snd (ingestLog rt base net logData) = Inl e)"
  apply (rule exI [of _ "post_json (base @ ''/ingest'') (LogBody logData)"])
  by (simp add: ingestLog_def Let_def post_json_def json_or_throw_ok json_or_throw_not_ok
        json_or_throw_rejected not_ok_error_def status_line_def)

theorem ingestLog_outcomes_witness:
  "snd (ingestLog
         \<lparr>rt_parse_url = (\<lambda>s. Some \<lparr>pu_href = s, pu_query = []\<rparr>), rt_number_text = (\<lambda>n. '''')\<rparr>
         ''http://localhost:8000''
         (\<lambda>req. Responded \<lparr>resp_status = 422, resp_statusText = ''Unprocessable Entity'',
                  resp_errorData =
                    JsonValue (JStr ''level must be one of INFO, WARNING, ERROR, CRITICAL, DEBUG''),
                  resp_json = None\<rparr>)
         \<lparr>ld_message = ''boot ok'', ld_level = ''BOGUS'', ld_service = ''auth'',
          ld_timestamp = None, ld_metadata = None\<rparr>)
     = Inl (Error ''level must be one of INFO, WARNING, ERROR, CRITICAL, DEBUG'') \<and>
   snd (ingestLog
         \<lparr>rt_parse_url = (\<lambda>s. Some \<lparr>pu_href = s, pu_query = []\<rparr>), rt_number_text = (\<lambda>n. '''')\<rparr>
         ''http://localhost:8000''
         (\<lambda>req. Responded \<lparr>resp_status = 401, resp_statusText = ''Unauthorized'',
                  resp_errorData = JsonNull, resp_json = None\<rparr>)
         \<lparr>ld_message = ''boot ok'', ld_level = ''INFO'', ld_service = ''auth'',
          ld_timestamp = None, ld_metadata = None\<rparr>)
     = Inl TypeError \<and>
   snd (ingestLog
         \<lparr>rt_parse_url = (\<lambda>s. Some \<lparr>pu_href = s, pu_query = []\<rparr>), rt_number_text = (\<lambda>n. '''')\<rparr>
         ''http://localhost:8000''
         (\<lambda>req. Responded \<lparr>resp_status = 401, resp_statusText = ''Unauthorized'',
                  resp_errorData = NotJson, resp_json = None\<rparr>)
         \<lparr>ld_message = ''boot ok'', ld_level = ''INFO'', ld_service = ''auth'',
          ld_timestamp = None, ld_metadata = None\<rparr>)
     = Inl (Error ''HTTP 401: Unauthorized'')"
  using
    ingestLog_outcomes
      [of "\<lparr>rt_parse_url = (\<lambda>s. Some \<lparr>pu_href = s, pu_query = []\<rparr>), rt_number_text = (\<lambda>n. '''')\<rparr>"
      "''http://localhost:8000''"
      "\<lambda>req. Responded \<lparr>resp_status = 422, resp_statusText = ''Unprocessable Entity'',
                  resp_errorData =
                    JsonValue (JStr ''level must be one of INFO, WARNING, ERROR, CRITICAL, DEBUG''),
                  resp_json = None\<rparr>"
      "\<lparr>ld_message = ''boot ok'', ld_level = ''BOGUS'', ld_service = ''auth'',
          ld_timestamp = None, ld_metadata = None\<rparr>"
      "\<lparr>resp_status = 422, resp_statusText = ''Unprocessable Entity'',
                  resp_errorData =
                    JsonValue (JStr ''level must be one of INFO, WARNING, ERROR, CRITICAL, DEBUG''),
                  resp_json = None\<rparr>"
      "\<lparr>ir_status = ''ok'', ir_message = ''queued'', ir_timestamp = ''2024-05-01T10:00:00Z''\<rparr>"
      "JStr ''level must be one of INFO, WARNING, ERROR, CRITICAL, DEBUG''" TypeError]
    ingestLog_outcomes
      [of "\<lparr>rt_parse_url = (\<lambda>s. Some \<lparr>pu_href = s, pu_query = []\<rparr>), rt_number_text = (\<lambda>n. '''')\<rparr>"
      "''http://localhost:8000''"
      "\<lambda>req. Responded \<lparr>resp_status = 401, resp_statusText = ''Unauthorized'',
                  resp_errorData = JsonNull, resp_json = None\<rparr>"
      "\<lparr>ld_message = ''boot ok'', ld_level = ''INFO'', ld_service = ''auth'',
          ld_timestamp = None, ld_metadata = None\<rparr>"
      "\<lparr>resp_status = 401, resp_statusText = ''Unauthorized'',
                  resp_errorData = JsonNull, resp_json = None\<rparr>"
      "\<lparr>ir_status = ''ok'', ir_message = ''queued'', ir_timestamp = ''2024-05-01T10:00:00Z''\<rparr>"
      "JNull" TypeError]
    ingestLog_outcomes
      [of "\<lparr>rt_parse_url = (\<lambda>s. Some \<lparr>pu_href = s, pu_query = []\<rparr>), rt_number_text = (\<lambda>n. '''')\<rparr>"
      "''http://localhost:8000''"
      "\<lambda>req. Responded \<lparr>resp_status = 401, resp_statusText = ''Unauthorized'',
                  resp_errorData = NotJson, resp_json = None\<rparr>"
      "\<lparr>ld_message = ''boot ok'', ld_level = ''INFO'', ld_service = ''auth'',
          ld_timestamp = None, ld_metadata = None\<rparr>"
      "\<lparr>resp_status = 401, resp_statusText = ''Unauthorized'',
                  resp_errorData = NotJson, resp_json = None\<rparr>"
      "\<lparr>ir_status = ''ok'', ir_message = ''queued'', ir_timestamp = ''2024-05-01T10:00:00Z''\<rparr>"
      "JNull" TypeError]
  by (auto simp: ok_def digits.simps)

text \<open>
  The request of \<open>ingestLog\<close> carries the \<open>Content-Type\<close> header and no other, and answers
  with status 401 and 422 that carry the same detail are thrown as the same error.
\<close>

theorem ingestLog_counterexample:
  "map req_headers
     (fst (ingestLog
        \<lparr>rt_parse_url = (\<lambda>s. Some \<lparr>pu_href = s, pu_query = []\<rparr>), rt_number_text = (\<lambda>n. '''')\<rparr>
        ''http://localhost:8000''
        (\<lambda>req. Responded \<lparr>resp_status = 401, resp_statusText = ''Unauthorized'',
                 resp_errorData = JsonValue (JStr ''Request rejected''), resp_json = None\<rparr>)
        \<lparr>ld_message = ''boot ok'', ld_level = ''INFO'', ld_service = ''auth'',
         ld_timestamp = None, ld_metadata = None\<rparr>))
     = [[(''Content-Type'', ''application/json'')]] \<and>
   snd (ingestLog
        \<lparr>rt_parse_url = (\<lambda>s. Some \<lparr>pu_href = s, pu_query = []\<rparr>), rt_number_text = (\<lambda>n. '''')\<rparr>
        ''http://localhost:8000''
        (\<lambda>req. Responded \<lparr>resp_status = 401, resp_statusText = ''Unauthorized'',
                 resp_errorData = JsonValue (JStr ''Request rejected''), resp_json = None\<rparr>)
        \<lparr>ld_message = ''boot ok'', ld_level = ''INFO'', ld_service = ''auth'',
         ld_timestamp = None, ld_metadata = None\<rparr>)
     = Inl (Error ''Request rejected'') \<and>
   snd (ingestLog
        \<lparr>rt_parse_url = (\<lambda>s. Some \<lparr>pu_href = s, pu_query = []\<rparr>), rt_number_text = (\<lambda>n. '''')\<rparr>
        ''http://localhost:8000''
        (\<lambda>req. Responded \<lparr>resp_status = 422, resp_statusText = ''Unprocessable Entity'',
                 resp_errorData = JsonValue (JStr ''Request rejected''), resp_json = None\<rparr>)
        \<lparr>ld_message = ''boot ok'', ld_level = ''INFO'', ld_service = ''auth'',
         ld_timestamp = None, ld_metadata = None\<rparr>)
     = Inl (Error ''Request rejected'')"
  by (simp add: ingestLog_def Let_def post_json_def json_or_throw_def ok_def not_ok_error_def)

lemma getOAuthToken_Some:
  "credentials s = Some c \<Longrightarrow> sc_oauth_token c \<noteq> [] \<Longrightarrow> getOAuthToken s = Some (sc_oauth_token c)"
  by (simp add: getOAuthToken_def)

text \<open>
  Claim C2, as the client has it. The client hands out a project's API key in clear text
  whenever the server supplies it. \<open>createProject\<close> returns the project of the answer,
  \<open>api_key\<close> included, and keeps it as it is in the stored credentials, in memory and in
  \<open>localStorage\<close>. With an \<open>oauth_token\<close>, \<open>getProjectApiKey\<close> returns the \<open>api_key\<close> of an
  ok answer of \<open>GET /projects/{id}/api-key\<close> unchanged and leaves the service as it was,
  so that it can be asked again, and the API key dialog shows that key. Without an
  \<open>oauth_token\<close> it fails with \<open>Not authenticated\<close> and sends nothing.
\<close>

theorem api_key_returned_in_clear:
  "(credentials s = Some c \<and>
      net (post_json (baseUrl s @ ''/projects'') (ProjectBody projectData)) = Responded r \<and>
      ok r \<and> resp_json r = Some p \<longrightarrow>
      (\<exists>s'. createProject rt net projectData s
              = (s', [post_json (baseUrl s @ ''/projects'') (ProjectBody projectData)], Inr p) \<and>
            credentials s' = Some (c\<lparr>sc_projects := sc_projects c @ [p]\<rparr>) \<and>
            localStorage s' STORAGE_KEY = Some (c\<lparr>sc_projects := sc_projects c @ [p]\<rparr>))) \<and>
   (credentials s = Some c \<and> sc_oauth_token c \<noteq> '''' \<and>
      net' (get_with_token (baseUrl s @ ''/projects/'' @ pr_id project @ ''/api-key'')
              (sc_oauth_token c)) = Responded r' \<and>
      ok r' \<and> resp_json r' = Some apiKey \<longrightarrow>
      getProjectApiKey rt net' (pr_id project) s
        = (s, [get_with_token (baseUrl s @ ''/projects/'' @ pr_id project @ ''/api-key'')
                 (sc_oauth_token c)], Inr apiKey) \<and>
      projectApiKey (fst (handleViewApiKeys rt net' project s page)) = apiKey \<and>
      selectedProject (fst (handleViewApiKeys rt net' project s page)) = Some project \<and>
      showApiModal (fst (handleViewApiKeys rt net' project s page)) \<and>
      \<not> loadingApiKey (fst (handleViewApiKeys rt net' project s page))) \<and>
   (getOAuthToken s = None \<longrightarrow>
      getProjectApiKey rt net' (pr_id project) s = (s, [], Inl (Error ''Not authenticated'')))"
proof (intro conjI impI)
  assume a: "credentials s = Some c \<and>
      net (post_json (baseUrl s @ ''/projects'') (ProjectBody projectData)) = Responded r \<and>
      ok r \<and> resp_json r = Some p"
  then show "\<exists>s'. createProject rt net projectData s
              = (s', [post_json (baseUrl s @ ''/projects'') (ProjectBody projectData)], Inr p) \<and>
            credentials s' = Some (c\<lparr>sc_projects := sc_projects c @ [p]\<rparr>) \<and>
            localStorage s' STORAGE_KEY = Some (c\<lparr>sc_projects := sc_projects c @ [p]\<rparr>)"
    by (simp add: createProject_def Let_def json_or_throw_ok saveCredentials_def)
next
  assume a: "credentials s = Some c \<and> sc_oauth_token c \<noteq> '''' \<and>
      net' (get_with_token (baseUrl s @ ''/projects/'' @ pr_id project @ ''/api-key'')
              (sc_oauth_token c)) = Responded r' \<and>
      ok r' \<and> resp_json r' = Some apiKey"
  then have t: "getOAuthToken s = Some (sc_oauth_token c)"
    by (simp add: getOAuthToken_Some)
  show k: "getProjectApiKey rt net' (pr_id project) s
        = (s, [get_with_token (baseUrl s @ ''/projects/'' @ pr_id project @ ''/api-key'')
                 (sc_oauth_token c)], Inr apiKey)"
    using a by (simp add: getProjectApiKey_def t Let_def json_or_throw_ok)
  show "projectApiKey (fst (handleViewApiKeys rt net' project s page)) = apiKey"
    by (simp add: handleViewApiKeys_def k)
  show "selectedProject (fst (handleViewApiKeys rt net' project s page)) = Some project"
    by (simp add: handleViewApiKeys_def k)
  show "showApiModal (fst (handleViewApiKeys rt net' project s page))"
    by (simp add: handleViewApiKeys_def k)
  show "\<not> loadingApiKey (fst (handleViewApiKeys rt net' project s page))"
    by (simp add: handleViewApiKeys_def k)
next
  assume "getOAuthToken s = None"
  then show "getProjectApiKey rt net' (pr_id project) s = (s, [], Inl (Error ''Not authenticated''))"
    by (simp add: getProjectApiKey_def)
qed

theorem api_key_returned_in_clear_witness:
  "getProjectApiKey
     \<lparr>rt_parse_url = (\<lambda>s. Some \<lparr>pu_href = s, pu_query = []\<rparr>), rt_number_text = (\<lambda>n. '''')\<rparr>
     (\<lambda>req. Responded \<lparr>resp_status = 200, resp_statusText = ''OK'', resp_errorData = NotJson,
        resp_json = Some ''key_abc:p1''\<rparr>)
     ''p1''
     \<lparr>baseUrl = ''http://localhost:8000'',
      credentials = Some \<lparr>sc_user = \<lparr>u_id = ''u1'', u_username = ''brave-otter'',
        u_api_key = ''tok_123''\<rparr>, sc_oauth_token = ''tok_123'', sc_projects = []\<rparr>,
      localStorage = Map.empty\<rparr>
   = (\<lparr>baseUrl = ''http://localhost:8000'',
      credentials = Some \<lparr>sc_user = \<lparr>u_id = ''u1'', u_username = ''brave-otter'',
        u_api_key = ''tok_123''\<rparr>, sc_oauth_token = ''tok_123'', sc_projects = []\<rparr>,
      localStorage = Map.empty\<rparr>,
      [\<lparr>req_method = GET, req_url = ''http://localhost:8000/projects/p1/api-key'',
        req_query = [(''oauth_token'', ''tok_123'')], req_headers = [], req_body = NoBody\<rparr>],
      Inr ''key_abc:p1'') \<and>
   getProjectApiKey
     \<lparr>rt_parse_url = (\<lambda>s. Some \<lparr>pu_href = s, pu_query = []\<rparr>), rt_number_text = (\<lambda>n. '''')\<rparr>
     (\<lambda>req. Responded \<lparr>resp_status = 200, resp_statusText = ''OK'', resp_errorData = NotJson,
        resp_json = Some ''key_abc:p1''\<rparr>)
     ''p1''
     \<lparr>baseUrl = ''http://localhost:8000'', credentials = None, localStorage = Map.empty\<rparr>
   = (\<lparr>baseUrl = ''http://localhost:8000'', credentials = None, localStorage = Map.empty\<rparr>,
      [], Inl (Error ''Not authenticated''))"
  using
    api_key_returned_in_clear [of "\<lparr>baseUrl = ''http://localhost:8000'',
      credentials = Some \<lparr>sc_user = \<lparr>u_id = ''u1'', u_username = ''brave-otter'',
        u_api_key = ''tok_123''\<rparr>, sc_oauth_token = ''tok_123'', sc_projects = []\<rparr>,
      localStorage = Map.empty\<rparr>"
      "\<lparr>sc_user = \<lparr>u_id = ''u1'', u_username = ''brave-otter'',
        u_api_key = ''tok_123''\<rparr>, sc_oauth_token = ''tok_123'', sc_projects = []\<rparr>"
      "\<lambda>req. Rejected TypeError"
      "\<lparr>cp_name = ''shop'', cp_description = None, cp_oauth_token = ''tok_123''\<rparr>"
      "\<lparr>resp_status = 500, resp_statusText = ''Internal Server Error'', resp_errorData = NotJson,
        resp_json = None\<rparr>"
      "\<lparr>pr_id = ''p1'', pr_name = ''shop'', pr_description = None,
        pr_api_key = ''key_abc:p1'', pr_owner_id = ''u1'', pr_created_at = ''2024-05-01T10:00:00Z''\<rparr>"
      "\<lparr>rt_parse_url = (\<lambda>s. Some \<lparr>pu_href = s, pu_query = []\<rparr>), rt_number_text = (\<lambda>n. '''')\<rparr>"
      "\<lambda>req. Responded \<lparr>resp_status = 200, resp_statusText = ''OK'', resp_errorData = NotJson,
        resp_json = Some ''key_abc:p1''\<rparr>"
      "\<lparr>pr_id = ''p1'', pr_name = ''shop'', pr_description = None,
        pr_api_key = ''key_abc:p1'', pr_owner_id = ''u1'', pr_created_at = ''2024-05-01T10:00:00Z''\<rparr>"
      "\<lparr>resp_status = 200, resp_statusText = ''OK'', resp_errorData = NotJson,
        resp_json = Some ''key_abc:p1''\<rparr>"
      "''key_abc:p1''"
      "\<lparr>selectedProject = None, showApiModal = False, projectApiKey = '''', loadingApiKey = False,
        error = None\<rparr>"]
    api_key_returned_in_clear
      [of "\<lparr>baseUrl = ''http://localhost:8000'', credentials = None, localStorage = Map.empty\<rparr>"
      _ _ _ _ _
      "\<lparr>rt_parse_url = (\<lambda>s. Some \<lparr>pu_href = s, pu_query = []\<rparr>), rt_number_text = (\<lambda>n. '''')\<rparr>"
      "\<lambda>req. Responded \<lparr>resp_status = 200, resp_statusText = ''OK'',
        resp_errorData = NotJson, resp_json = Some ''key_abc:p1''\<rparr>"
      "\<lparr>pr_id = ''p1'', pr_name = ''shop'', pr_description = None,
        pr_api_key = ''key_abc:p1'', pr_owner_id = ''u1'', pr_created_at = ''2024-05-01T10:00:00Z''\<rparr>"]
  by (simp add: ok_def getOAuthToken_def get_with_token_def)

text \<open>
  The key is not shown once only, nor kept as a digest only: after a project was created
  with the key \<open>key_abc:p1\<close>, \<open>localStorage\<close> holds that key in clear text,
  \<open>getProjectApiKey\<close> returns it and the API key dialog displays it.
\<close>

theorem api_key_shown_once_counterexample:
  "map_option (map pr_api_key \<circ> sc_projects)
     (localStorage
        (fst (createProject
           \<lparr>rt_parse_url = (\<lambda>s. Some \<lparr>pu_href = s, pu_query = []\<rparr>), rt_number_text = (\<lambda>n. '''')\<rparr>
           (\<lambda>req. Responded \<lparr>resp_status = 200, resp_statusText = ''OK'', resp_errorData = NotJson,
              resp_json = Some \<lparr>pr_id = ''p1'', pr_name = ''shop'', pr_description = None,
                pr_api_key = ''key_abc:p1'', pr_owner_id = ''u1'',
                pr_created_at = ''2024-05-01T10:00:00Z''\<rparr>\<rparr>)
           \<lparr>cp_name = ''shop'', cp_description = None, cp_oauth_token = ''tok_123''\<rparr>
           \<lparr>baseUrl = ''http://localhost:8000'',
            credentials = Some \<lparr>sc_user = \<lparr>u_id = ''u1'', u_username = ''brave-otter'',
              u_api_key = ''tok_123''\<rparr>, sc_oauth_token = ''tok_123'', sc_projects = []\<rparr>,
            localStorage = Map.empty\<rparr>))
        STORAGE_KEY)
     = Some [''key_abc:p1''] \<and>
   snd (snd (getProjectApiKey
     \<lparr>rt_parse_url = (\<lambda>s. Some \<lparr>pu_href = s, pu_query = []\<rparr>), rt_number_text = (\<lambda>n. '''')\<rparr>
     (\<lambda>req. Responded \<lparr>resp_status = 200, resp_statusText = ''OK'', resp_errorData = NotJson,
        resp_json = Some ''key_abc:p1''\<rparr>)
     ''p1''
     (fst (createProject
           \<lparr>rt_parse_url = (\<lambda>s. Some \<lparr>pu_href = s, pu_query = []\<rparr>), rt_number_text = (\<lambda>n. '''')\<rparr>
           (\<lambda>req. Responded \<lparr>resp_status = 200, resp_statusText = ''OK'', resp_errorData = NotJson,
              resp_json = Some \<lparr>pr_id = ''p1'', pr_name = ''shop'', pr_description = None,
                pr_api_key = ''key_abc:p1'', pr_owner_id = ''u1'',
                pr_created_at = ''2024-05-01T10:00:00Z''\<rparr>\<rparr>)
           \<lparr>cp_name = ''shop'', cp_description = None, cp_oauth_token = ''tok_123''\<rparr>
           \<lparr>baseUrl = ''http://localhost:8000'',
            credentials = Some \<lparr>sc_user = \<lparr>u_id = ''u1'', u_username = ''brave-otter'',
              u_api_key = ''tok_123''\<rparr>, sc_oauth_token = ''tok_123'', sc_projects = []\<rparr>,
            localStorage = Map.empty\<rparr>))))
     = Inr ''key_abc:p1'' \<and>
   projectApiKey (fst (handleViewApiKeys
     \<lparr>rt_parse_url = (\<lambda>s. Some \<lparr>pu_href = s, pu_query = []\<rparr>), rt_number_text = (\<lambda>n. '''')\<rparr>
     (\<lambda>req. Responded \<lparr>resp_status = 200, resp_statusText = ''OK'', resp_errorData = NotJson,
        resp_json = Some ''key_abc:p1''\<rparr>)
     \<lparr>pr_id = ''p1'', pr_name = ''shop'', pr_description = None,
      pr_api_key = ''key_abc:p1'', pr_owner_id = ''u1'', pr_created_at = ''2024-05-01T10:00:00Z''\<rparr>
     (fst (createProject
           \<lparr>rt_parse_url = (\<lambda>s. Some \<lparr>pu_href = s, pu_query = []\<rparr>), rt_number_text = (\<lambda>n. '''')\<rparr>
           (\<lambda>req. Responded \<lparr>resp_status = 200, resp_statusText = ''OK'', resp_errorData = NotJson,
              resp_json = Some \<lparr>pr_id = ''p1'', pr_name = ''shop'', pr_description = None,
                pr_api_key = ''key_abc:p1'', pr_owner_id = ''u1'',
                pr_created_at = ''2024-05-01T10:00:00Z''\<rparr>\<rparr>)
           \<lparr>cp_name = ''shop'', cp_description = None, cp_oauth_token = ''tok_123''\<rparr>
           \<lparr>baseUrl = ''http://localhost:8000'',
            credentials = Some \<lparr>sc_user = \<lparr>u_id = ''u1'', u_username = ''brave-otter'',
              u_api_key = ''tok_123''\<rparr>, sc_oauth_token = ''tok_123'', sc_projects = []\<rparr>,
            localStorage = Map.empty\<rparr>))
     \<lparr>selectedProject = None, showApiModal = False, projectApiKey = '''', loadingApiKey = False,
      error = None\<rparr>))
     = ''key_abc:p1''"
  by (simp add: createProject_def Let_def post_json_def json_or_throw_def ok_def
        saveCredentials_def getProjectApiKey_def getOAuthToken_def get_with_token_def
        handleViewApiKeys_def)

end
